theory Spec2Isabelle
  imports Complex_Main "HOL-Library.Multiset"
begin

section \<open>JavaScript strings and numbers as the client uses them\<close>

text \<open>
  A JavaScript string is modelled as a \<^typ>\<open>string\<close>; a character stands for one code
  unit below 256. Numbers that the client only counts with are \<^typ>\<open>nat\<close> or
  \<^typ>\<open>int\<close>; a number it compares is a \<^typ>\<open>real\<close>, the exact value of the
  double; the one number it multiplies goes through the rounding of doubles, modelled
  with the results panel.
\<close>

definition digit_char :: "nat \<Rightarrow> char" where
  "digit_char d = ''0123456789'' ! d"

text \<open>The decimal text of a non-negative integer, as a template literal interpolates it.\<close>

fun dec :: "nat \<Rightarrow> string" where
  "dec n = (if n < 10 then [digit_char n] else dec (n div 10) @ [digit_char (n mod 10)])"

declare dec.simps [simp del]

definition dec_int :: "int \<Rightarrow> string" where
  "dec_int i = (if i < 0 then ''-'' @ dec (nat (- i)) else dec (nat i))"

text \<open>
  \<^verbatim>\<open>String.prototype.trim\<close>: white space and line terminators are removed from both
  ends. Below 256 these are tab, line feed, vertical tab, form feed, carriage return, space
  and the no-break space.
\<close>

definition is_space :: "char \<Rightarrow> bool" where
  "is_space c = (c \<in> set [CHR 0x09, CHR 0x0A, CHR 0x0B, CHR 0x0C, CHR 0x0D, CHR 0x20, CHR 0xA0])"

definition trim :: "string \<Rightarrow> string" where
  "trim s = rev (dropWhile is_space (rev (dropWhile is_space s)))"

text \<open>\<^verbatim>\<open>Array.prototype.join\<close> on an array of strings.\<close>

fun join :: "string \<Rightarrow> string list \<Rightarrow> string" where
  "join sep [] = []"
| "join sep [x] = x"
| "join sep (x # y # ys) = x @ sep @ join sep (y # ys)"

text \<open>
  \<^verbatim>\<open>Array.prototype.sort(compare)\<close>. The language makes the sort stable; for a
  comparator that orders the elements consistently the result is therefore the one stable
  arrangement, which insertion from the right computes: an element stays in front of every
  later element it does not compare greater than.
\<close>

fun sort_insert :: "('a \<Rightarrow> 'a \<Rightarrow> 'n::linordered_idom) \<Rightarrow> 'a \<Rightarrow> 'a list \<Rightarrow> 'a list" where
  "sort_insert compare a [] = [a]"
| "sort_insert compare a (b # bs) =
     (if compare a b \<le> 0 then a # b # bs else b # sort_insert compare a bs)"

fun array_sort :: "('a \<Rightarrow> 'a \<Rightarrow> 'n::linordered_idom) \<Rightarrow> 'a list \<Rightarrow> 'a list" where
  "array_sort compare [] = []"
| "array_sort compare (a # as) = sort_insert compare a (array_sort compare as)"

datatype js_error = Error string | TypeError string | SyntaxError string

fun message :: "js_error \<Rightarrow> string" where
  "message (Error m) = m"
| "message (TypeError m) = m"
| "message (SyntaxError m) = m"

section \<open>services/api.js\<close>

text \<open>
  The network is a function from the request sent to what comes back: either the fetch is
  rejected (no response; a \<^verbatim>\<open>TypeError\<close>) or a response arrives. Every request issued
  is appended to the list of requests sent, which is threaded through the calls.
\<close>

record request =
  req_url :: string
  req_method :: string
  req_headers :: "(string \<times> string) list"
  req_body :: "string option"

record response =
  res_status :: nat
  res_body :: string

datatype net_outcome = Rejected string | Responded response

text \<open>\<^verbatim>\<open>Response.ok\<close>: the status is in the range 200 to 299.\<close>

definition ok :: "response \<Rightarrow> bool" where
  "ok res = (200 \<le> res_status res \<and> res_status res \<le> 299)"

definition fetch ::
  "(request \<Rightarrow> net_outcome) \<Rightarrow> request \<Rightarrow> request list \<Rightarrow> net_outcome \<times> request list" where
  "fetch net req sent = (net req, sent @ [req])"

text \<open>
  \<^verbatim>\<open>res.json()\<close>: the body text parsed as JSON. The parser is a parameter; it answers
  \<open>Inl\<close> with the message of the \<^verbatim>\<open>SyntaxError\<close> when the text is not JSON.
\<close>

definition res_json :: "(string \<Rightarrow> string + 'a) \<Rightarrow> response \<Rightarrow> js_error + 'a" where
  "res_json parse res = (case parse (res_body res) of Inl m \<Rightarrow> Inl (SyntaxError m) | Inr v \<Rightarrow> Inr v)"

text \<open>
  \<^verbatim>\<open>JSON.stringify({ query })\<close> for a string \<^verbatim>\<open>query\<close>: the object with the one
  property, its value quoted as JSON quotes a string.
\<close>

definition hex_digit :: "nat \<Rightarrow> char" where
  "hex_digit d = ''0123456789abcdef'' ! d"

definition quote_char :: "char \<Rightarrow> string" where
  "quote_char c =
     (if c = CHR 0x08 then [CHR 0x5C, CHR ''b'']
      else if c = CHR 0x09 then [CHR 0x5C, CHR ''t'']
      else if c = CHR 0x0A then [CHR 0x5C, CHR ''n'']
      else if c = CHR 0x0C then [CHR 0x5C, CHR ''f'']
      else if c = CHR 0x0D then [CHR 0x5C, CHR ''r'']
      else if c = CHR 0x22 then [CHR 0x5C, CHR 0x22]
      else if c = CHR 0x5C then [CHR 0x5C, CHR 0x5C]
      else if (of_char c :: nat) < 32
        then [CHR 0x5C, CHR ''u'', CHR ''0'', CHR ''0'',
              hex_digit ((of_char c :: nat) div 16), hex_digit ((of_char c :: nat) mod 16)]
      else [c])"

definition JSON_quote :: "string \<Rightarrow> string" where
  "JSON_quote s = [CHR 0x22] @ concat (map quote_char s) @ [CHR 0x22]"

definition JSON_stringify_query :: "string \<Rightarrow> string" where
  "JSON_stringify_query query = ''{'' @ JSON_quote ''query'' @ '':'' @ JSON_quote query @ ''}''"

definition API_BASE :: string where
  "API_BASE = ''/api''"

text \<open>The two arguments of the \<^verbatim>\<open>fetch\<close> in \<^verbatim>\<open>queryAgent\<close>, as the request they make.\<close>

definition query_request :: "string \<Rightarrow> request" where
  "query_request query =
     \<lparr>req_url = API_BASE @ ''/query'', req_method = ''POST'',
      req_headers = [(''Content-Type'', ''application/json'')],
      req_body = Some (JSON_stringify_query query)\<rparr>"

definition queryAgent ::
  "(request \<Rightarrow> net_outcome) \<Rightarrow> (string \<Rightarrow> string + 'a) \<Rightarrow> string \<Rightarrow> request list
     \<Rightarrow> (js_error + 'a) \<times> request list" where
  "queryAgent net parse query sent =
     (case fetch net (query_request query) sent of
        (Rejected m, sent') \<Rightarrow> (Inl (TypeError m), sent')
      | (Responded res, sent') \<Rightarrow>
          if \<not> ok res then (Inl (Error (''API error: '' @ dec (res_status res))), sent')
          else (res_json parse res, sent'))"

text \<open>
  The request of the \<^verbatim>\<open>fetch\<close> in \<^verbatim>\<open>getStats\<close>: a fetch with no options is a GET
  with no headers of the caller's and no body.
\<close>

definition stats_request :: request where
  "stats_request =
     \<lparr>req_url = API_BASE @ ''/stats'', req_method = ''GET'', req_headers = [], req_body = None\<rparr>"

definition getStats ::
  "(request \<Rightarrow> net_outcome) \<Rightarrow> (string \<Rightarrow> string + 'a) \<Rightarrow> request list
     \<Rightarrow> (js_error + 'a) \<times> request list" where
  "getStats net parse sent =
     (case fetch net stats_request sent of
        (Rejected m, sent') \<Rightarrow> (Inl (TypeError m), sent')
      | (Responded res, sent') \<Rightarrow>
          if \<not> ok res then (Inl (Error (''API error: '' @ dec (res_status res))), sent')
          else (res_json parse res, sent'))"

section \<open>The response envelope as the client reads it\<close>

record order =
  order_id :: int
  buyer :: string
  city :: string
  state :: string
  items :: "string list"
  order_total :: real

text \<open>
  An entry of \<^verbatim>\<open>ml_predictions\<close> is a JSON object. The client reads its numeric
  properties \<^verbatim>\<open>order_id\<close> and \<^verbatim>\<open>reorder_probability\<close> (kept as the number the
  JSON text has; the client holds the nearest double) and looks one string
  property up by name, so the string properties are kept by name (an object has each name
  once): a property the object does not have reads as \<^verbatim>\<open>undefined\<close>, here
  \<open>None\<close>.
\<close>

record prediction_entry =
  entry_order_id :: int
  entry_reorder_probability :: real
  entry_strings :: "(string \<times> string) list"

definition string_property :: "prediction_entry \<Rightarrow> string \<Rightarrow> string option" where
  "string_property p name = map_of (entry_strings p) name"

text \<open>
  \<^verbatim>\<open>filters_applied\<close> is an object, kept as the list of its own properties in
  enumeration order (\<open>None\<close>: the property is null or absent). The type of its values is
  the server's choice and stays a type variable; their conversion to a string is the
  parameter \<open>toString\<close> of the functions that print them. \<^verbatim>\<open>validation_warnings\<close>
  and \<^verbatim>\<open>ml_predictions\<close> are read with \<^verbatim>\<open>?.\<close> and may be absent too.
\<close>

record 'v envelope =
  success :: bool
  total_parsed :: nat
  total_matched :: nat
  filters_applied :: "(string \<times> 'v) list option"
  orders :: "order list"
  validation_warnings :: "string list option"
  ml_predictions :: "prediction_entry list option"
  error :: "string option"

text \<open>\<^verbatim>\<open>x || {}\<close> on an object that may be absent, and the two views of an object.\<close>

definition or_empty :: "(string \<times> 'v) list option \<Rightarrow> (string \<times> 'v) list" where
  "or_empty obj = (case obj of None \<Rightarrow> [] | Some props \<Rightarrow> props)"

definition Object_keys :: "(string \<times> 'v) list \<Rightarrow> string list" where
  "Object_keys obj = map fst obj"

definition Object_entries :: "(string \<times> 'v) list \<Rightarrow> (string \<times> 'v) list" where
  "Object_entries obj = obj"

text \<open>A string that may be undefined, interpolated in a template literal.\<close>

definition interpolate :: "string option \<Rightarrow> string" where
  "interpolate v = (case v of None \<Rightarrow> ''undefined'' | Some s \<Rightarrow> s)"

text \<open>The same value as a JSX child: undefined renders nothing.\<close>

definition jsx_child :: "string option \<Rightarrow> string" where
  "jsx_child v = (case v of None \<Rightarrow> [] | Some s \<Rightarrow> s)"

text \<open>
  \<^verbatim>\<open>[...result.orders].sort((a, b) => a.order_id - b.order_id)\<close>, the expression both
  the chat table and the results panel map their rows over.
\<close>

definition sorted_orders :: "order list \<Rightarrow> order list" where
  "sorted_orders os = array_sort (\<lambda>a b. order_id a - order_id b) os"

section \<open>components/Message.jsx\<close>

record 'v chat_message =
  role :: string
  content :: string
  result :: "'v envelope option"

text \<open>
  What a chat bubble shows: the text, the table of orders when there is one (a row stands
  for the order whose fields it prints) and the warning badges when there are any.
\<close>

record message_view =
  view_is_user :: bool
  view_text :: string
  view_table :: "order list option"
  view_warnings :: "string list option"

definition Message :: "'v chat_message \<Rightarrow> message_view" where
  "Message msg =
     \<lparr>view_is_user = (role msg = ''user''),
      view_text = content msg,
      view_table =
        (case result msg of
           None \<Rightarrow> None
         | Some r \<Rightarrow>
             if success r \<and> length (orders r) > 0 then Some (sorted_orders (orders r))
             else None),
      view_warnings =
        (case result msg of
           None \<Rightarrow> None
         | Some r \<Rightarrow>
             (case validation_warnings r of
                None \<Rightarrow> None
              | Some ws \<Rightarrow> if length ws > 0 then Some ws else None))\<rparr>"

section \<open>ResultsPanel (in Message.jsx, from line 55)\<close>

datatype tab = Table_tab | Raw_tab

text \<open>
  The numbers of the engine are IEEE 754 doubles: 53 significant bits, exponents from
  \<open>-1022\<close> to \<open>1023\<close>, gradual underflow, and results rounded to the nearest double,
  to the even one on a tie. A finite double is kept as the real number it is.
\<close>

datatype double = Finite real | Pos_Infinity | Neg_Infinity

text \<open>The number of binary digits of a positive integer.\<close>

function bit_length :: "int \<Rightarrow> int" where
  "bit_length n = (if n \<le> 0 then 0 else 1 + bit_length (n div 2))"
  by pat_completeness auto
termination
  by (relation "measure nat") auto

declare bit_length.simps [simp del]

text \<open>The exponent \<open>e\<close> with \<open>2^e \<le> a < 2^(e+1)\<close>, for a positive \<open>a\<close>.\<close>

definition binade :: "real \<Rightarrow> int" where
  "binade a =
     (if a \<ge> 1 then bit_length \<lfloor>a\<rfloor> - 1
      else - bit_length (\<lceil>1 / a\<rceil> - 1))"

definition pow2 :: "int \<Rightarrow> real" where
  "pow2 k = (if k \<ge> 0 then 2 ^ nat k else 1 / 2 ^ nat (- k))"

definition round_half_even :: "real \<Rightarrow> int" where
  "round_half_even q =
     (let f = \<lfloor>q\<rfloor>; r = q - of_int f
      in if r < 1 / 2 then f
         else if r > 1 / 2 then f + 1
         else if even f then f else f + 1)"

text \<open>A magnitude rounded to a multiple of the unit in the last place of exponent \<open>e\<close>.\<close>

definition round_at :: "int \<Rightarrow> real \<Rightarrow> real" where
  "round_at e a = of_int (round_half_even (a / pow2 (e - 52))) * pow2 (e - 52)"

text \<open>
  The double nearest to a real number: what \<^verbatim>\<open>JSON.parse\<close> makes of a number in the
  text, and what an arithmetic operation makes of its exact result. A double is its own
  nearest double.
\<close>

definition to_double :: "real \<Rightarrow> double" where
  "to_double x =
     (if x = 0 then Finite 0
      else
        let m = round_at (max (binade \<bar>x\<bar>) (- 1022)) \<bar>x\<bar>
        in if m \<ge> pow2 1024 then (if x < 0 then Neg_Infinity else Pos_Infinity)
           else Finite (if x < 0 then - m else m))"

text \<open>\<^verbatim>\<open>d * 100\<close> on doubles: the exact product, rounded.\<close>

definition times_100 :: "double \<Rightarrow> double" where
  "times_100 d =
     (case d of
        Finite a \<Rightarrow> to_double (a * 100)
      | Pos_Infinity \<Rightarrow> Pos_Infinity
      | Neg_Infinity \<Rightarrow> Neg_Infinity)"

text \<open>
  \<^verbatim>\<open>x.toFixed(0)\<close>: for a finite number the sign, then the integer nearest to the
  magnitude, the larger one on a tie. From \<open>10^21\<close> on the method falls back to the
  engine's conversion of the number to a string, the parameter \<open>numberToString\<close>.
\<close>

definition toFixed0 :: "(real \<Rightarrow> string) \<Rightarrow> double \<Rightarrow> string" where
  "toFixed0 numberToString d =
     (case d of
        Pos_Infinity \<Rightarrow> ''Infinity''
      | Neg_Infinity \<Rightarrow> ''-Infinity''
      | Finite x \<Rightarrow>
          (let s = (if x < 0 then ''-'' else []); a = (if x < 0 then - x else x)
           in if a \<ge> 10 ^ 21 then s @ numberToString a
              else s @ dec (nat \<lfloor>a + 1 / 2\<rfloor>)))"

text \<open>
  The reorder indicator of a card: whether it is drawn in the success colour, and its text.
\<close>

record indicator =
  likely_style :: bool
  indicator_text :: string

record card =
  card_order :: order
  card_indicator :: "indicator option"

definition find_prediction :: "prediction_entry list option \<Rightarrow> order \<Rightarrow> prediction_entry option" where
  "find_prediction predictions ord =
     (case predictions of
        None \<Rightarrow> None
      | Some ps \<Rightarrow> List.find (\<lambda>p. entry_order_id p = order_id ord) ps)"

definition reorder_indicator :: "(real \<Rightarrow> string) \<Rightarrow> prediction_entry \<Rightarrow> indicator" where
  "reorder_indicator numberToString pred =
     \<lparr>likely_style = (string_property pred ''prediction'' = Some ''likely_reorder''),
      indicator_text =
        toFixed0 numberToString (times_100 (to_double (entry_reorder_probability pred)))
          @ ''% reorder''\<rparr>"

definition order_card :: "(real \<Rightarrow> string) \<Rightarrow> 'v envelope \<Rightarrow> order \<Rightarrow> card" where
  "order_card numberToString env ord =
     \<lparr>card_order = ord,
      card_indicator =
        (case find_prediction (ml_predictions env) ord of
           None \<Rightarrow> None
         | Some pred \<Rightarrow> Some (reorder_indicator numberToString pred))\<rparr>"

datatype 'v panel_content =
    No_orders_matched
  | Cards "card list"
  | Raw_JSON "'v envelope"

record 'v results_view =
  matched_badge :: string
  filter_badges :: "string list option"
  warnings_box :: "string list option"
  panel_body :: "'v panel_content"

datatype 'v panel = Placeholder | Error_card string | Results "'v results_view"

definition ResultsPanel ::
  "('v \<Rightarrow> string) \<Rightarrow> (real \<Rightarrow> string) \<Rightarrow> tab \<Rightarrow> 'v envelope option \<Rightarrow> 'v panel" where
  "ResultsPanel toString numberToString tab latest =
     (case latest of
        None \<Rightarrow> Placeholder
      | Some env \<Rightarrow>
          if \<not> success env then Error_card (jsx_child (error env))
          else Results
            \<lparr>matched_badge =
               dec (total_matched env) @ '' of '' @ dec (total_parsed env) @ '' matched'',
             filter_badges =
               (if length (Object_keys (or_empty (filters_applied env))) > 0
                then Some (map (\<lambda>(k, v). k @ '': '' @ toString v)
                             (Object_entries (or_empty (filters_applied env))))
                else None),
             warnings_box =
               (case validation_warnings env of
                  None \<Rightarrow> None
                | Some ws \<Rightarrow> if length ws > 0 then Some ws else None),
             panel_body =
               (case tab of
                  Table_tab \<Rightarrow>
                    if length (orders env) = 0 then No_orders_matched
                    else Cards (map (order_card numberToString env)
                                  (sorted_orders (orders env)))
                | Raw_tab \<Rightarrow> Raw_JSON env)\<rparr>)"

section \<open>components/ChatPanel.jsx and the state App.jsx gives it\<close>

definition SUGGESTIONS :: "string list" where
  "SUGGESTIONS =
     [''Show me all orders from Ohio over $500'',
      ''Who ordered laptops or gaming PCs?'',
      ''Orders under $100'']"

text \<open>
  The state one submission reads and writes: the state \<^verbatim>\<open>App\<close> owns
  (\<^verbatim>\<open>messages\<close>, \<^verbatim>\<open>latestResult\<close>, \<^verbatim>\<open>isLoading\<close>, \<^verbatim>\<open>rightTab\<close>), the text
  of the input box, and two logs: the envelopes \<^verbatim>\<open>onResult\<close> was called with and the
  requests that went out.
\<close>

record 'v app_state =
  messages :: "'v chat_message list"
  input :: string
  isLoading :: bool
  latestResult :: "'v envelope option"
  rightTab :: string
  onResult_calls :: "'v envelope list"
  requests_sent :: "request list"

text \<open>\<^verbatim>\<open>handleResult\<close> of App.jsx, which is the \<^verbatim>\<open>onResult\<close> the chat panel receives.\<close>

definition handleResult :: "'v envelope \<Rightarrow> 'v app_state \<Rightarrow> 'v app_state" where
  "handleResult env st = st\<lparr>latestResult := Some env, rightTab := ''results''\<rparr>"

definition onResult :: "'v envelope \<Rightarrow> 'v app_state \<Rightarrow> 'v app_state" where
  "onResult env st = handleResult env (st\<lparr>onResult_calls := onResult_calls st @ [env]\<rparr>)"

text \<open>The text of the assistant's message for an envelope (lines 41 to 47).\<close>

definition summary :: "('v \<Rightarrow> string) \<Rightarrow> 'v envelope \<Rightarrow> string" where
  "summary toString env =
     (if success env
      then ''Found '' @ dec (total_matched env) @ '' of '' @ dec (total_parsed env) @ '' orders.'' @
        (if length (Object_keys (or_empty (filters_applied env))) > 0
         then '' Filters: '' @
           join '', '' (map (\<lambda>(k, v). k @ ''='' @ toString v)
                          (Object_entries (or_empty (filters_applied env))))
         else [])
      else ''Error: '' @ interpolate (error env))"

text \<open>
  \<^verbatim>\<open>query || input.trim()\<close>: the argument is absent (\<open>None\<close>) when the handler is
  called from the key or the send button, and a suggestion otherwise.
\<close>

definition submitted :: "string option \<Rightarrow> string \<Rightarrow> string" where
  "submitted query text =
     (case query of
        None \<Rightarrow> trim text
      | Some s \<Rightarrow> if s = [] then trim text else s)"

text \<open>
  The part of \<^verbatim>\<open>handleSubmit\<close> that runs before the request (lines 35 to 37): the
  input is cleared, the user's message appended and \<open>isLoading\<close> set.
\<close>

definition submit_start :: "string \<Rightarrow> 'v app_state \<Rightarrow> 'v app_state" where
  "submit_start q st =
     (let st1 = st\<lparr>input := []\<rparr>;
          st2 = st1\<lparr>messages := messages st1 @ [\<lparr>role = ''user'', content = q, result = None\<rparr>]\<rparr>
      in st2\<lparr>isLoading := True\<rparr>)"

text \<open>
  The part that runs once the request has settled (lines 41 to 57), on the state as it is
  then: the \<^verbatim>\<open>try\<close> branch for an envelope, the \<^verbatim>\<open>catch\<close> branch for a thrown
  error, and the \<^verbatim>\<open>finally\<close> block.
\<close>

definition submit_settle ::
  "('v \<Rightarrow> string) \<Rightarrow> js_error + 'v envelope \<Rightarrow> 'v app_state \<Rightarrow> 'v app_state" where
  "submit_settle toString outcome st =
     (let st5 =
            (case outcome of
               Inr env \<Rightarrow>
                 onResult env
                   (st\<lparr>messages := messages st @
                      [\<lparr>role = ''assistant'', content = summary toString env,
                        result = Some env\<rparr>]\<rparr>)
             | Inl err \<Rightarrow>
                 st\<lparr>messages := messages st @
                   [\<lparr>role = ''assistant'',
                     content = ''Error: '' @ message err @
                       ''. Make sure the backend is running (python main.py).'',
                     result = None\<rparr>]\<rparr>)
      in st5\<lparr>isLoading := False\<rparr>)"

text \<open>
  One run of \<^verbatim>\<open>handleSubmit\<close>, from the call to the end of its \<^verbatim>\<open>finally\<close> block,
  with the outcome of the request given by the network and the parser.
\<close>

definition handleSubmit ::
  "(request \<Rightarrow> net_outcome) \<Rightarrow> (string \<Rightarrow> string + 'v envelope) \<Rightarrow> ('v \<Rightarrow> string)
     \<Rightarrow> string option \<Rightarrow> 'v app_state \<Rightarrow> 'v app_state" where
  "handleSubmit net parse toString query st =
     (let q = submitted query (input st) in
      if q = [] \<or> isLoading st then st
      else
        let st3 = submit_start q st;
            (outcome, sent') = queryAgent net parse q (requests_sent st3);
            st4 = st3\<lparr>requests_sent := sent'\<rparr>
        in submit_settle toString outcome st4)"

text \<open>
  The text a call submits before any trimming: the argument, or the text of the input box.
\<close>

definition submission_text :: "string option \<Rightarrow> string \<Rightarrow> string" where
  "submission_text query box = (case query of None \<Rightarrow> box | Some s \<Rightarrow> s)"

section \<open>components/StatsPanel.jsx\<close>

text \<open>
  The diagnostics object. The panel is defined on every extension of the record, so that
  an object with more properties than these five is an input too.
\<close>

record stats =
  accuracy :: real
  training_samples :: nat
  test_samples :: nat
  state_reorder_rates :: "(string \<times> real) list option"
  feature_importance :: "(string \<times> real) list"

definition stateBarColor :: "real \<Rightarrow> string" where
  "stateBarColor rate =
     (if rate \<ge> 60 then ''bg-success''
      else if rate \<ge> 45 then ''bg-accent''
      else ''bg-warning'')"

text \<open>\<^verbatim>\<open>Object.entries(obj).sort(([, a], [, b]) => b - a)\<close>.\<close>

definition entries_descending :: "(string \<times> real) list \<Rightarrow> (string \<times> real) list" where
  "entries_descending obj = array_sort (\<lambda>(_, a) (_, b). b - a) (Object_entries obj)"

record state_row =
  row_state :: string
  row_rate :: real
  row_color :: string

text \<open>A feature row stands for the entry (name and value) it prints.\<close>

record stats_view =
  accuracy_shown :: real
  training_shown :: nat
  test_shown :: nat
  state_rows :: "state_row list option"
  feature_rows :: "(string \<times> real) list"

definition stats_body :: "'z stats_scheme \<Rightarrow> stats_view" where
  "stats_body st =
     \<lparr>accuracy_shown = accuracy st,
      training_shown = training_samples st,
      test_shown = test_samples st,
      state_rows =
        (case state_reorder_rates st of
           None \<Rightarrow> None
         | Some rates \<Rightarrow>
             Some (map (\<lambda>(s, rate). \<lparr>row_state = s, row_rate = rate, row_color = stateBarColor rate\<rparr>)
                     (entries_descending rates))),
      feature_rows = entries_descending (feature_importance st)\<rparr>"

record 'z stats_panel_state =
  panel_stats :: "'z stats_scheme option"
  panel_loading :: bool
  panel_error :: "string option"

definition stats_panel_initial :: "'z stats_panel_state" where
  "stats_panel_initial = \<lparr>panel_stats = None, panel_loading = True, panel_error = None\<rparr>"

text \<open>The effect run on mount: the request, then one of the two setters, then the loading flag.\<close>

definition stats_panel_mount ::
  "(request \<Rightarrow> net_outcome) \<Rightarrow> (string \<Rightarrow> string + 'z stats_scheme) \<Rightarrow> request list
     \<Rightarrow> 'z stats_panel_state \<times> request list" where
  "stats_panel_mount net parse sent =
     (case getStats net parse sent of
        (Inr s, sent') \<Rightarrow> (stats_panel_initial\<lparr>panel_stats := Some s, panel_loading := False\<rparr>, sent')
      | (Inl e, sent') \<Rightarrow>
          (stats_panel_initial\<lparr>panel_error := Some (message e), panel_loading := False\<rparr>, sent'))"

text \<open>
  What the panel renders. An error message that is the empty string is falsy, and a panel
  with no stats then fails reading a property of null.
\<close>

datatype stats_screen = Spinner | Stats_error string | Diagnostics stats_view | Render_TypeError

definition StatsPanel :: "'z stats_panel_state \<Rightarrow> stats_screen" where
  "StatsPanel ps =
     (if panel_loading ps then Spinner
      else (case panel_error ps of
              Some m \<Rightarrow>
                if m \<noteq> [] then Stats_error m
                else (case panel_stats ps of None \<Rightarrow> Render_TypeError | Some s \<Rightarrow> Diagnostics (stats_body s))
            | None \<Rightarrow>
                (case panel_stats ps of None \<Rightarrow> Render_TypeError | Some s \<Rightarrow> Diagnostics (stats_body s))))"

section \<open>The pipeline behind the two endpoints\<close>

text \<open>
  The server (agent.py, models.py, server.py) is not among the source files. The
  definitions of this section follow the specification instead; each says so.
\<close>

text \<open>
  Modelled from the spec: the ReorderPrediction of section 3, produced by the missing
  models.py, with the field names the specification gives it.
\<close>

record ReorderPrediction =
  rp_order_id :: int
  reorder_probability :: real
  predicted_label :: string

text \<open>
  Modelled from the spec: the JSON object of a ReorderPrediction as the missing server.py
  would send it, each field under its own name. Its only string property is
  \<^verbatim>\<open>predicted_label\<close>.
\<close>

definition prediction_json :: "ReorderPrediction \<Rightarrow> prediction_entry" where
  "prediction_json p =
     \<lparr>entry_order_id = rp_order_id p,
      entry_reorder_probability = reorder_probability p,
      entry_strings = [(''predicted_label'', predicted_label p)]\<rparr>"

text \<open>
  Modelled from the spec: the trained parameters of the Reorder Predictor of section 4.6
  (the missing models.py), a logistic regression over the feature vector of an order. The
  feature map is a parameter of the scoring function; the decision threshold is the 0.5 of
  section 8; the label of the other class, which the specification does not name, is the
  parameter \<open>other\<close>. Numbers are real numbers, not doubles.
\<close>

record trained_model =
  weights :: "real list"
  intercept :: real

text \<open>
  Modelled from the spec: the logistic function of the regression of section 4.6, which
  the missing models.py applies to the weighted sum of the features.
\<close>

definition sigmoid :: "real \<Rightarrow> real" where
  "sigmoid z = 1 / (1 + exp (- z))"

text \<open>
  Modelled from the spec: \<^verbatim>\<open>score(ValidatedOrder)\<close> of section 4.6 (the missing
  models.py), with the label rule of section 8.
\<close>

definition score ::
  "trained_model \<Rightarrow> (order \<Rightarrow> real list) \<Rightarrow> string \<Rightarrow> order \<Rightarrow> ReorderPrediction" where
  "score m features other ord =
     (let p = sigmoid (intercept m + sum_list (map2 (\<lambda>w x. w * x) (weights m) (features ord)))
      in \<lparr>rp_order_id = order_id ord,
          reorder_probability = p,
          predicted_label = (if p \<ge> 1 / 2 then ''likely_reorder'' else other)\<rparr>)"

text \<open>
  Modelled from the spec: the failures of section 7 that abort a run (the missing
  agent.py). The Raw Source Client of section 4.1 is modelled by a source that answers the
  attempt with a given number with a batch or fails; the delay between attempts is not
  modelled.
\<close>

datatype pipeline_error = SourceUnavailable | ExtractionFailed string

text \<open>
  Modelled from the spec: the retry loop of section 4.1 (the missing agent.py), with the
  number of attempts left and the number of the next attempt.
\<close>

fun fetch_attempts :: "nat \<Rightarrow> (nat \<Rightarrow> 'b list option) \<Rightarrow> nat \<Rightarrow> pipeline_error + 'b list" where
  "fetch_attempts 0 source k = Inl SourceUnavailable"
| "fetch_attempts (Suc n) source k =
     (case source k of Some batch \<Rightarrow> Inr batch | None \<Rightarrow> fetch_attempts n source (Suc k))"

text \<open>
  Modelled from the spec: \<^verbatim>\<open>fetch()\<close> of section 4.1 (the missing agent.py): three
  attempts, then \<open>SourceUnavailable\<close>.
\<close>

definition fetch_batch :: "(nat \<Rightarrow> 'b list option) \<Rightarrow> pipeline_error + 'b list" where
  "fetch_batch source = fetch_attempts 3 source 0"

text \<open>
  Modelled from the spec: the Record Extractor of section 4.2 (the missing agent.py). The
  split of the batch into contiguous groups and the model call on one group are
  parameters; the groups are parsed in order, the results concatenated, and one failing
  group fails the extraction.
\<close>

fun extract_groups ::
  "('b list \<Rightarrow> string + order list) \<Rightarrow> 'b list list \<Rightarrow> pipeline_error + order list" where
  "extract_groups complete_call [] = Inr []"
| "extract_groups complete_call (g # gs) =
     (case complete_call g of
        Inl cause \<Rightarrow> Inl (ExtractionFailed cause)
      | Inr parsed \<Rightarrow>
          (case extract_groups complete_call gs of
             Inl e \<Rightarrow> Inl e
           | Inr rest \<Rightarrow> Inr (parsed @ rest)))"

text \<open>
  Modelled from the spec: the Hallucination Validator of section 4.3 (the missing
  agent.py). Whether an order is found in the source text is a parameter; an order that is
  not is dropped with one warning, and the survivors keep their order.
\<close>

text \<open>
  Modelled from the spec: the warning of section 4.3 for one dropped order (the missing
  agent.py), in the wording of the specification's example.
\<close>

definition warning_for :: "order \<Rightarrow> string" where
  "warning_for ord = ''Order '' @ dec_int (order_id ord) @ '': hallucinated, removed''"

text \<open>
  Modelled from the spec: \<^verbatim>\<open>validate\<close> of section 4.3 (the missing agent.py): the
  validated orders and the warnings.
\<close>

definition validate :: "(order \<Rightarrow> bool) \<Rightarrow> order list \<Rightarrow> order list \<times> string list" where
  "validate substantiated parsed =
     (filter substantiated parsed,
      map warning_for (filter (\<lambda>ord. \<not> substantiated ord) parsed))"

text \<open>
  Modelled from the spec: the Filter Engine of section 4.5 (the missing agent.py). What it
  means for an order to satisfy a FilterSet is a parameter.
\<close>

definition apply_filters :: "('f \<Rightarrow> order \<Rightarrow> bool) \<Rightarrow> 'f \<Rightarrow> order list \<Rightarrow> order list" where
  "apply_filters satisfies fs validated = filter (satisfies fs) validated"

text \<open>
  Modelled from the spec: the error string of a failed run (section 4.7, the missing
  agent.py). \<^verbatim>\<open>SourceUnavailable\<close> is the string of the scenario in section 8; the
  text for a failed extraction, which carries its cause, is an assumption of the model.
\<close>

definition error_text :: "pipeline_error \<Rightarrow> string" where
  "error_text e =
     (case e of
        SourceUnavailable \<Rightarrow> ''SourceUnavailable''
      | ExtractionFailed cause \<Rightarrow> ''ExtractionFailed: '' @ cause)"

text \<open>
  Modelled from the spec: the envelope of section 4.7 for a failed stage (the missing
  agent.py): \<open>success\<close> false, the error, and nothing counted or listed.
\<close>

definition failure_envelope :: "pipeline_error \<Rightarrow> 'v envelope" where
  "failure_envelope e =
     \<lparr>success = False, total_parsed = 0, total_matched = 0, filters_applied = Some [],
      orders = [], validation_warnings = Some [], ml_predictions = Some [],
      error = Some (error_text e)\<rparr>"

text \<open>
  Modelled from the spec: one pipeline run of section 4.7 (the missing agent.py): fetch,
  extract, validate, interpret, filter, score, respond. \<open>total_parsed\<close> counts the
  parsed orders before validation, as the scenarios of section 8 have it.
\<close>

definition run_pipeline ::
  "(nat \<Rightarrow> 'b list option) \<Rightarrow> ('b list \<Rightarrow> 'b list list) \<Rightarrow> ('b list \<Rightarrow> string + order list)
     \<Rightarrow> ('b list \<Rightarrow> order \<Rightarrow> bool) \<Rightarrow> (string \<Rightarrow> 'f) \<Rightarrow> ('f \<Rightarrow> order \<Rightarrow> bool)
     \<Rightarrow> ('f \<Rightarrow> (string \<times> 'v) list) \<Rightarrow> (order \<Rightarrow> ReorderPrediction) \<Rightarrow> string
     \<Rightarrow> 'v envelope" where
  "run_pipeline source split complete_call substantiated interpret satisfies echo scorer query =
     (case fetch_batch source of
        Inl e \<Rightarrow> failure_envelope e
      | Inr batch \<Rightarrow>
          (case extract_groups complete_call (split batch) of
             Inl e \<Rightarrow> failure_envelope e
           | Inr parsed \<Rightarrow>
               (let (validated, warnings) = validate (substantiated batch) parsed;
                    fs = interpret query;
                    matched = apply_filters satisfies fs validated
                in \<lparr>success = True,
                    total_parsed = length parsed,
                    total_matched = length matched,
                    filters_applied = Some (echo fs),
                    orders = matched,
                    validation_warnings = Some warnings,
                    ml_predictions = Some (map (\<lambda>ord. prediction_json (scorer ord)) matched),
                    error = None\<rparr>)))"

section \<open>What a view shows, and sample data\<close>

text \<open>The orders a chat bubble lists, top to bottom; none when it has no table.\<close>

definition table_orders :: "message_view \<Rightarrow> order list" where
  "table_orders v = (case view_table v of None \<Rightarrow> [] | Some rows \<Rightarrow> rows)"

text \<open>The orders the results panel lists as cards, top to bottom.\<close>

definition panel_cards :: "'v panel \<Rightarrow> card list" where
  "panel_cards p =
     (case p of
        Results v \<Rightarrow> (case panel_body v of Cards cs \<Rightarrow> cs | _ \<Rightarrow> [])
      | _ \<Rightarrow> [])"

text \<open>
  A network that gives every request the same answer, a parser with a fixed result, an
  engine conversion for \<^verbatim>\<open>toFixed\<close>, and envelopes and a state to run the client on.
\<close>

definition answering :: "net_outcome \<Rightarrow> request \<Rightarrow> net_outcome" where
  "answering out req = out"

definition parsing_as :: "string + 'a \<Rightarrow> string \<Rightarrow> string + 'a" where
  "parsing_as v body = v"

definition exponent_form :: "real \<Rightarrow> string" where
  "exponent_form x = ''1e+21''"

definition order_numbered :: "int \<Rightarrow> order" where
  "order_numbered i =
     \<lparr>order_id = i, buyer = ''Ann Lee'', city = ''Columbus'', state = ''OH'',
      items = [''laptop''], order_total = 120\<rparr>"

definition unavailable_envelope :: "string envelope" where
  "unavailable_envelope =
     \<lparr>success = False, total_parsed = 0, total_matched = 0, filters_applied = None,
      orders = [], validation_warnings = None, ml_predictions = None,
      error = Some ''SourceUnavailable''\<rparr>"

definition matched_envelope :: "string envelope" where
  "matched_envelope =
     \<lparr>success = True, total_parsed = 20, total_matched = 2,
      filters_applied = Some [(''state'', ''OH''), (''min_total'', ''100'')],
      orders = [order_numbered 12, order_numbered 5],
      validation_warnings = Some [],
      ml_predictions = Some
        [\<lparr>entry_order_id = 5, entry_reorder_probability = 9 / 10,
          entry_strings = [(''prediction'', ''likely_reorder'')]\<rparr>,
         \<lparr>entry_order_id = 12, entry_reorder_probability = 1 / 5,
          entry_strings = [(''prediction'', ''unlikely_reorder'')]\<rparr>],
      error = None\<rparr>"

definition idle_state :: "string app_state" where
  "idle_state =
     \<lparr>messages = [], input = ''  Orders under $100 '', isLoading = False, latestResult = None,
      rightTab = ''stats'', onResult_calls = [], requests_sent = []\<rparr>"

definition model_stats :: stats where
  "model_stats =
     \<lparr>accuracy = 872 / 10, training_samples = 4000, test_samples = 1000,
      state_reorder_rates = Some [(''TX'', 58), (''OH'', 64), (''NY'', 41)],
      feature_importance = [(''num_items'', 12), (''has_electronics'', 61 / 2)]\<rparr>"

text \<open>
  An envelope whose predictions need the rounding of doubles, with two entries for order 1.
\<close>

definition rounding_envelope :: "string envelope" where
  "rounding_envelope =
     \<lparr>success = True, total_parsed = 20, total_matched = 2,
      filters_applied = None,
      orders = [order_numbered 2, order_numbered 1],
      validation_warnings = None,
      ml_predictions = Some
        [\<lparr>entry_order_id = 1, entry_reorder_probability = 145 / 1000,
          entry_strings = [(''prediction'', ''likely_reorder'')]\<rparr>,
         \<lparr>entry_order_id = 2, entry_reorder_probability = 15 / 1000,
          entry_strings = [(''prediction'', ''unlikely_reorder'')]\<rparr>,
         \<lparr>entry_order_id = 1, entry_reorder_probability = 9 / 10,
          entry_strings = [(''prediction'', ''unlikely_reorder'')]\<rparr>],
      error = None\<rparr>"

text \<open>
  A run of the pipeline to evaluate: a source that fails twice, one group, three parsed
  orders of which number 9 is not found in the text, a query read as the state OH, and a
  model whose weights are zero.
\<close>

definition flaky_source :: "nat \<Rightarrow> string list option" where
  "flaky_source k =
     (if k < 2 then None
      else Some [''Order 12: Ann Lee, Columbus, OH'', ''Order 5: Ann Lee, Columbus, OH'', ''noise''])"

definition one_group :: "'b list \<Rightarrow> 'b list list" where
  "one_group batch = [batch]"

definition three_parsed :: "string list \<Rightarrow> string + order list" where
  "three_parsed blobs = Inr [order_numbered 12, order_numbered 5, order_numbered 9]"

definition not_number_9 :: "string list \<Rightarrow> order \<Rightarrow> bool" where
  "not_number_9 batch ord = (order_id ord \<noteq> 9)"

definition state_of_query :: "string \<Rightarrow> string" where
  "state_of_query query = ''OH''"

definition in_state :: "string \<Rightarrow> order \<Rightarrow> bool" where
  "in_state s ord = (state ord = s)"

definition state_echo :: "string \<Rightarrow> (string \<times> string) list" where
  "state_echo s = [(''state'', s)]"

definition item_count :: "order \<Rightarrow> real list" where
  "item_count ord = [real (length (items ord))]"

definition untrained :: trained_model where
  "untrained = \<lparr>weights = [0], intercept = 0\<rparr>"

section \<open>Sorting, requests and submissions: the facts the properties share\<close>

lemma mset_sort_insert: "mset (sort_insert compare a bs) = add_mset a (mset bs)"
  by (induction bs) auto

lemma mset_array_sort: "mset (array_sort compare xs) = mset xs"
  by (induction xs) (auto simp: mset_sort_insert)

lemma set_sort_insert: "set (sort_insert compare a bs) = insert a (set bs)"
  by (induction bs) auto

lemma sorted_sort_insert:
  fixes key :: "'a \<Rightarrow> 'k::linorder"
  assumes cmp: "\<And>a b. (compare a b \<le> 0) = (key a \<le> key b)"
  shows "sorted (map key bs) \<Longrightarrow> sorted (map key (sort_insert compare a bs))"
proof (induction bs)
  case Nil
  show ?case by simp
next
  case (Cons b bs)
  show ?case
  proof (cases "compare a b \<le> 0")
    case True
    with Cons.prems cmp show ?thesis by auto
  next
    case False
    then have "key b \<le> key a" using cmp by (metis linear)
    with False Cons show ?thesis by (auto simp: set_sort_insert)
  qed
qed

lemma sorted_array_sort:
  fixes key :: "'a \<Rightarrow> 'k::linorder"
  assumes cmp: "\<And>a b. (compare a b \<le> 0) = (key a \<le> key b)"
  shows "sorted (map key (array_sort compare xs))"
  by (induction xs) (simp_all add: sorted_sort_insert [OF cmp])

lemma fetch_log: "snd (fetch net req sent) = sent @ [req]"
  by (simp add: fetch_def)

lemma queryAgent_sent: "snd (queryAgent net parse query sent) = sent @ [query_request query]"
  by (simp add: queryAgent_def fetch_def split: net_outcome.split)

lemma getStats_sent: "snd (getStats net parse sent) = sent @ [stats_request]"
  by (simp add: getStats_def fetch_def split: net_outcome.split)

lemma queryAgent_outcome:
  "fst (queryAgent net parse query sent) =
     (case net (query_request query) of
        Rejected m \<Rightarrow> Inl (TypeError m)
      | Responded res \<Rightarrow>
          if ok res then res_json parse res
          else Inl (Error (''API error: '' @ dec (res_status res))))"
  by (simp add: queryAgent_def fetch_def split: net_outcome.split)

lemma getStats_outcome:
  "fst (getStats net parse sent) =
     (case net stats_request of
        Rejected m \<Rightarrow> Inl (TypeError m)
      | Responded res \<Rightarrow>
          if ok res then res_json parse res
          else Inl (Error (''API error: '' @ dec (res_status res))))"
  by (simp add: getStats_def fetch_def split: net_outcome.split)

lemma res_json_not_Error: "res_json parse res \<noteq> Inl (Error m)"
  by (simp add: res_json_def split: sum.split)

lemma handleSubmit_blocked:
  "submitted query (input st) = [] \<or> isLoading st \<Longrightarrow>
     handleSubmit net parse toString query st = st"
  by (auto simp add: handleSubmit_def Let_def)

lemma handleSubmit_resolved:
  assumes "submitted query (input st) \<noteq> []" and "\<not> isLoading st"
    and "fst (queryAgent net parse (submitted query (input st)) (requests_sent st)) = Inr env"
  shows "handleSubmit net parse toString query st =
    st\<lparr>messages := messages st @
          [\<lparr>role = ''user'', content = submitted query (input st), result = None\<rparr>,
           \<lparr>role = ''assistant'', content = summary toString env, result = Some env\<rparr>],
       input := [],
       isLoading := False,
       latestResult := Some env,
       rightTab := ''results'',
       onResult_calls := onResult_calls st @ [env],
       requests_sent := requests_sent st @ [query_request (submitted query (input st))]\<rparr>"
  using assms queryAgent_sent [of net parse "submitted query (input st)" "requests_sent st"]
  by (simp add: handleSubmit_def submit_start_def submit_settle_def Let_def split_beta
      onResult_def handleResult_def)

lemma handleSubmit_rejected:
  assumes "submitted query (input st) \<noteq> []" and "\<not> isLoading st"
    and "fst (queryAgent net parse (submitted query (input st)) (requests_sent st)) = Inl err"
  shows "handleSubmit net parse toString query st =
    st\<lparr>messages := messages st @
          [\<lparr>role = ''user'', content = submitted query (input st), result = None\<rparr>,
           \<lparr>role = ''assistant'',
             content = ''Error: '' @ message err @
               ''. Make sure the backend is running (python main.py).'',
             result = None\<rparr>],
       input := [],
       isLoading := False,
       requests_sent := requests_sent st @ [query_request (submitted query (input st))]\<rparr>"
  using assms queryAgent_sent [of net parse "submitted query (input st)" "requests_sent st"]
  by (simp add: handleSubmit_def submit_start_def submit_settle_def Let_def split_beta)

lemma sorted_orders_ascending: "sorted (map order_id (sorted_orders os))"
  unfolding sorted_orders_def by (rule sorted_array_sort) auto

lemma sorted_orders_mset: "mset (sorted_orders os) = mset os"
  by (simp add: sorted_orders_def mset_array_sort)

lemma map_card_order: "map (card_order \<circ> order_card f env) os = os"
  by (induction os) (simp_all add: order_card_def)

lemma entries_descending_sorted: "sorted_wrt (\<lambda>a b. snd a \<ge> snd b) (entries_descending obj)"
proof -
  have "sorted (map (\<lambda>p. - snd p) (entries_descending obj))"
    unfolding entries_descending_def by (rule sorted_array_sort) (auto split: prod.splits)
  then show ?thesis by (simp add: sorted_map)
qed

lemma entries_descending_mset: "mset (entries_descending obj) = mset obj"
  by (simp add: entries_descending_def mset_array_sort Object_entries_def)

lemma stats_body_truncate: "stats_body s = stats_body (stats.truncate s)"
  by (simp add: stats_body_def stats.truncate_def)

lemma state_rows_entries:
  "map_option (map (\<lambda>r. (row_state r, row_rate r))) (state_rows (stats_body s))
     = map_option entries_descending (state_reorder_rates s)"
  by (cases "state_reorder_rates s") (simp_all add: stats_body_def comp_def split_beta)

lemma submitted_None: "submitted None text = trim text"
  by (simp add: submitted_def)

lemma summary_failed: "\<not> success env \<Longrightarrow> summary toString env = ''Error: '' @ interpolate (error env)"
  by (simp add: summary_def)

lemma ResultsPanel_failed:
  "\<not> success env \<Longrightarrow>
     ResultsPanel toString numberToString tab (Some env) = Error_card (jsx_child (error env))"
  by (simp add: ResultsPanel_def)

lemma sigmoid_bounds: "0 < sigmoid z \<and> sigmoid z < 1"
proof -
  have e: "0 < exp (- z)" by simp
  then have pos: "0 < 1 + exp (- z)" by (simp add: add_pos_pos)
  have "1 < 1 + exp (- z)" using e by simp
  then have "1 / (1 + exp (- z)) < 1" using pos by (simp add: divide_less_eq_1)
  moreover have "0 < 1 / (1 + exp (- z))" using pos by simp
  ultimately show ?thesis by (simp add: sigmoid_def)
qed

lemma fetch_attempts_ok: "fetch_attempts n source k = Inr batch \<Longrightarrow> \<exists>j. source j = Some batch"
  by (induction n arbitrary: k) (auto split: option.splits)

lemma run_pipeline_counts:
  "total_matched (run_pipeline source split complete_call substantiated interpret satisfies echo scorer query)
     \<le> total_parsed (run_pipeline source split complete_call substantiated interpret satisfies echo scorer query) \<and>
   length (orders (run_pipeline source split complete_call substantiated interpret satisfies echo scorer query))
     = total_matched (run_pipeline source split complete_call substantiated interpret satisfies echo scorer query)"
proof (cases "fetch_batch source")
  case (Inl e)
  then show ?thesis by (simp add: run_pipeline_def failure_envelope_def)
next
  case (Inr batch)
  show ?thesis
  proof (cases "extract_groups complete_call (split batch)")
    case (Inl e)
    with Inr show ?thesis by (simp add: run_pipeline_def failure_envelope_def)
  next
    case (Inr parsed)
    with \<open>fetch_batch source = Inr batch\<close> show ?thesis
      by (simp add: run_pipeline_def validate_def apply_filters_def Let_def)
  qed
qed


lemma find_prediction_id:
  "find_prediction predictions ord = Some pred \<Longrightarrow> entry_order_id pred = order_id ord"
  by (cases predictions) (auto simp add: find_prediction_def find_Some_iff)

lemma find_prediction_first:
  assumes "entry_order_id pred = order_id ord"
    and "\<forall>p \<in> set ps. entry_order_id p \<noteq> order_id ord"
  shows "find_prediction (Some (ps @ pred # rest)) ord = Some pred"
  using assms by (induction ps) (simp_all add: find_prediction_def)

lemma find_prediction_None:
  "(find_prediction predictions ord = None)
     = (\<forall>ps. predictions = Some ps \<longrightarrow> (\<forall>p \<in> set ps. entry_order_id p \<noteq> order_id ord))"
  by (cases predictions) (auto simp add: find_prediction_def find_None_iff)

lemma toFixed0_nearest:
  assumes "0 \<le> x" and "x < 10 ^ 21"
  shows "toFixed0 numberToString (Finite x) = dec (nat \<lfloor>x + 1 / 2\<rfloor>)"
  using assms by (simp add: toFixed0_def Let_def)

lemma handleSubmit_phases:
  assumes "submitted query (input st) \<noteq> []" and "\<not> isLoading st"
  shows "handleSubmit net parse toString query st =
    submit_settle toString
      (fst (queryAgent net parse (submitted query (input st)) (requests_sent st)))
      ((submit_start (submitted query (input st)) st)
         \<lparr>requests_sent :=
            snd (queryAgent net parse (submitted query (input st)) (requests_sent st))\<rparr>)"
  using assms by (simp add: handleSubmit_def Let_def split_beta submit_start_def)

text \<open>Rounding to a double, evaluated step by step for a positive number of moderate size.\<close>

lemma to_double_positive:
  assumes "0 < x" and "binade x = e" and "- 1022 \<le> e" and "round_at e x = m" and "m \<le> 1000"
  shows "to_double x = Finite m"
proof -
  have "(1000::real) < 2 ^ 1024" by simp
  with assms(5) have "\<not> m \<ge> pow2 1024" by (simp add: pow2_def)
  with assms(1-4) show ?thesis by (simp add: to_double_def Let_def max_def)
qed

lemma double_0_9: "to_double (9 / 10) = Finite (8106479329266893 / 2 ^ 53)"
proof (rule to_double_positive)
  show "binade (9 / 10) = - 1" by (simp add: binade_def bit_length.simps)
  show "round_at (- 1) (9 / 10) = 8106479329266893 / 2 ^ 53"
    by (simp add: round_at_def pow2_def round_half_even_def Let_def)
qed simp_all

lemma double_0_9_times_100: "to_double (8106479329266893 / 2 ^ 53 * 100) = Finite 90"
proof (rule to_double_positive)
  show "binade (8106479329266893 / 2 ^ 53 * 100) = 6" by (simp add: binade_def bit_length.simps)
  show "round_at 6 (8106479329266893 / 2 ^ 53 * 100) = 90"
    by (simp add: round_at_def pow2_def round_half_even_def Let_def)
qed simp_all

lemma double_0_2: "to_double (1 / 5) = Finite (7205759403792794 / 2 ^ 55)"
proof (rule to_double_positive)
  show "binade (1 / 5) = - 3" by (simp add: binade_def bit_length.simps)
  show "round_at (- 3) (1 / 5) = 7205759403792794 / 2 ^ 55"
    by (simp add: round_at_def pow2_def round_half_even_def Let_def)
qed simp_all

lemma double_0_2_times_100: "to_double (7205759403792794 / 2 ^ 55 * 100) = Finite 20"
proof (rule to_double_positive)
  show "binade (7205759403792794 / 2 ^ 55 * 100) = 4" by (simp add: binade_def bit_length.simps)
  show "round_at 4 (7205759403792794 / 2 ^ 55 * 100) = 20"
    by (simp add: round_at_def pow2_def round_half_even_def Let_def)
qed simp_all

lemma double_0_145: "to_double (145 / 1000) = Finite (5224175567749775 / 2 ^ 55)"
proof (rule to_double_positive)
  show "binade (145 / 1000) = - 3" by (simp add: binade_def bit_length.simps)
  show "round_at (- 3) (145 / 1000) = 5224175567749775 / 2 ^ 55"
    by (simp add: round_at_def pow2_def round_half_even_def Let_def)
qed simp_all

lemma double_0_145_times_100:
  "to_double (5224175567749775 / 2 ^ 55 * 100) = Finite (8162774324609023 / 2 ^ 49)"
proof (rule to_double_positive)
  show "binade (5224175567749775 / 2 ^ 55 * 100) = 3" by (simp add: binade_def bit_length.simps)
  show "round_at 3 (5224175567749775 / 2 ^ 55 * 100) = 8162774324609023 / 2 ^ 49"
    by (simp add: round_at_def pow2_def round_half_even_def Let_def)
qed simp_all

lemma double_0_015: "to_double (15 / 1000) = Finite (8646911284551352 / 2 ^ 59)"
proof (rule to_double_positive)
  show "binade (15 / 1000) = - 7" by (simp add: binade_def bit_length.simps)
  show "round_at (- 7) (15 / 1000) = 8646911284551352 / 2 ^ 59"
    by (simp add: round_at_def pow2_def round_half_even_def Let_def)
qed simp_all

lemma double_0_015_times_100: "to_double (8646911284551352 / 2 ^ 59 * 100) = Finite (3 / 2)"
proof (rule to_double_positive)
  show "binade (8646911284551352 / 2 ^ 59 * 100) = 0" by (simp add: binade_def bit_length.simps)
  show "round_at 0 (8646911284551352 / 2 ^ 59 * 100) = 3 / 2"
    by (simp add: round_at_def pow2_def round_half_even_def Let_def)
qed simp_all

text \<open>The texts of the indicator for four probabilities.\<close>

lemma percent_0_9: "toFixed0 numberToString (times_100 (to_double (9 / 10))) = ''90''"
proof -
  have "times_100 (to_double (9 / 10)) = Finite 90"
    by (simp only: times_100_def double_0_9 double.case double_0_9_times_100)
  then show ?thesis by (simp add: toFixed0_def Let_def dec.simps digit_char_def)
qed

lemma percent_0_2: "toFixed0 numberToString (times_100 (to_double (1 / 5))) = ''20''"
proof -
  have "times_100 (to_double (1 / 5)) = Finite 20"
    by (simp only: times_100_def double_0_2 double.case double_0_2_times_100)
  then show ?thesis by (simp add: toFixed0_def Let_def dec.simps digit_char_def)
qed

lemma percent_0_145: "toFixed0 numberToString (times_100 (to_double (145 / 1000))) = ''14''"
proof -
  have "times_100 (to_double (145 / 1000)) = Finite (8162774324609023 / 2 ^ 49)"
    by (simp only: times_100_def double_0_145 double.case double_0_145_times_100)
  then show ?thesis by (simp add: toFixed0_def Let_def dec.simps digit_char_def)
qed

lemma percent_0_015: "toFixed0 numberToString (times_100 (to_double (15 / 1000))) = ''2''"
proof -
  have "times_100 (to_double (15 / 1000)) = Finite (3 / 2)"
    by (simp only: times_100_def double_0_015 double.case double_0_015_times_100)
  then show ?thesis by (simp add: toFixed0_def Let_def dec.simps digit_char_def)
qed

lemma panel_cards_success:
  "success env \<Longrightarrow>
     panel_cards (ResultsPanel toString numberToString Table_tab (Some env))
       = map (order_card numberToString env) (sorted_orders (orders env))"
  by (cases "orders env") (simp_all add: panel_cards_def ResultsPanel_def sorted_orders_def)

lemma suggestion_submitted:
  assumes "s \<in> set SUGGESTIONS"
  shows "trim s \<noteq> [] \<and> submitted (Some s) box = s"
proof -
  from assms consider "s = ''Show me all orders from Ohio over $500''"
    | "s = ''Who ordered laptops or gaming PCs?''" | "s = ''Orders under $100''"
    by (auto simp add: SUGGESTIONS_def)
  then show ?thesis
    by cases (simp_all add: trim_def is_space_def submitted_def)
qed

section \<open>Properties\<close>

text \<open>
  C3. \<^verbatim>\<open>queryAgent\<close> and \<^verbatim>\<open>getStats\<close> throw the Error with the message
  \<^verbatim>\<open>API error: \<close> followed by the status exactly when the response is not ok (its
  status is outside 200 to 299); they throw an Error of that kind in no other case (a
  rejected fetch is a TypeError, a body that is not JSON a SyntaxError). Either function
  returns what the body of an ok response parses to, and so never throws for a body that
  parses: in particular an envelope with \<open>success\<close> false is returned, not thrown.
\<close>

theorem api_error_iff_status_not_ok:
  "(\<forall>res. net (query_request query) = Responded res \<longrightarrow>
      (fst (queryAgent net parse query sent) = Inl (Error (''API error: '' @ dec (res_status res))))
        = (\<not> ok res)) \<and>
   (\<forall>res. net stats_request = Responded res \<longrightarrow>
      (fst (getStats net parse_stats sent) = Inl (Error (''API error: '' @ dec (res_status res))))
        = (\<not> ok res)) \<and>
   ((\<exists>m. fst (queryAgent net parse query sent) = Inl (Error m))
      = (\<exists>res. net (query_request query) = Responded res \<and> \<not> ok res)) \<and>
   ((\<exists>m. fst (getStats net parse_stats sent) = Inl (Error m))
      = (\<exists>res. net stats_request = Responded res \<and> \<not> ok res)) \<and>
   (\<forall>res env. net (query_request query) = Responded res \<and> ok res \<and>
        parse (res_body res) = Inr env \<and> \<not> success env \<longrightarrow>
      fst (queryAgent net parse query sent) = Inr env) \<and>
   (\<forall>res. net (query_request query) = Responded res \<and> ok res \<longrightarrow>
      fst (queryAgent net parse query sent) = res_json parse res \<and>
      (\<forall>v. parse (res_body res) = Inr v \<longrightarrow> fst (queryAgent net parse query sent) = Inr v)) \<and>
   (\<forall>res. net stats_request = Responded res \<and> ok res \<longrightarrow>
      fst (getStats net parse_stats sent) = res_json parse_stats res \<and>
      (\<forall>d. parse_stats (res_body res) = Inr d \<longrightarrow>
         fst (getStats net parse_stats sent) = Inr d))"
proof -
  have q: "\<And>res. net (query_request query) = Responded res \<Longrightarrow>
      (fst (queryAgent net parse query sent) = Inl (Error (''API error: '' @ dec (res_status res))))
        = (\<not> ok res)"
    by (simp add: queryAgent_outcome res_json_not_Error)
  have s: "\<And>res. net stats_request = Responded res \<Longrightarrow>
      (fst (getStats net parse_stats sent) = Inl (Error (''API error: '' @ dec (res_status res))))
        = (\<not> ok res)"
    by (simp add: getStats_outcome res_json_not_Error)
  have qe: "(\<exists>m. fst (queryAgent net parse query sent) = Inl (Error m))
      = (\<exists>res. net (query_request query) = Responded res \<and> \<not> ok res)"
    by (cases "net (query_request query)") (simp_all add: queryAgent_outcome res_json_not_Error)
  have se: "(\<exists>m. fst (getStats net parse_stats sent) = Inl (Error m))
      = (\<exists>res. net stats_request = Responded res \<and> \<not> ok res)"
    by (cases "net stats_request") (simp_all add: getStats_outcome res_json_not_Error)
  have r: "\<And>res env. net (query_request query) = Responded res \<and> ok res \<and>
        parse (res_body res) = Inr env \<and> \<not> success env \<Longrightarrow>
      fst (queryAgent net parse query sent) = Inr env"
    by (simp add: queryAgent_outcome res_json_def)
  have qr: "\<And>res. net (query_request query) = Responded res \<and> ok res \<Longrightarrow>
      fst (queryAgent net parse query sent) = res_json parse res \<and>
      (\<forall>v. parse (res_body res) = Inr v \<longrightarrow> fst (queryAgent net parse query sent) = Inr v)"
    by (simp add: queryAgent_outcome res_json_def)
  have sr: "\<And>res. net stats_request = Responded res \<and> ok res \<Longrightarrow>
      fst (getStats net parse_stats sent) = res_json parse_stats res \<and>
      (\<forall>d. parse_stats (res_body res) = Inr d \<longrightarrow>
         fst (getStats net parse_stats sent) = Inr d)"
    by (simp add: getStats_outcome res_json_def)
  from q s qe se r qr sr show ?thesis by blast
qed

theorem api_error_iff_status_not_ok_witness:
  "fst (queryAgent (answering (Responded \<lparr>res_status = 503, res_body = ''down''\<rparr>))
          (parsing_as (Inr unavailable_envelope)) ''Orders under $100'' [])
     = Inl (Error ''API error: 503'') \<and>
   fst (getStats (answering (Responded \<lparr>res_status = 404, res_body = ''''\<rparr>))
          (parsing_as (Inr model_stats)) [])
     = Inl (Error ''API error: 404'') \<and>
   fst (queryAgent (answering (Responded \<lparr>res_status = 200, res_body = ''{}''\<rparr>))
          (parsing_as (Inr unavailable_envelope)) ''Orders under $100'' [])
     = Inr unavailable_envelope \<and>
   fst (getStats (answering (Responded \<lparr>res_status = 200, res_body = ''{}''\<rparr>))
          (parsing_as (Inr model_stats)) [])
     = Inr model_stats"
proof -
  let ?down = "\<lparr>res_status = 503, res_body = ''down''\<rparr>"
  let ?missing = "\<lparr>res_status = 404, res_body = ''''\<rparr>"
  let ?fine = "\<lparr>res_status = 200, res_body = ''{}''\<rparr>"
  let ?env = "parsing_as (Inr unavailable_envelope)"
  let ?stats = "parsing_as (Inr model_stats)"
  note a = api_error_iff_status_not_ok
    [of "answering (Responded ?down)" "''Orders under $100''" ?env "[]" ?stats]
  note b = api_error_iff_status_not_ok
    [of "answering (Responded ?missing)" "''Orders under $100''" ?env "[]" ?stats]
  note c = api_error_iff_status_not_ok
    [of "answering (Responded ?fine)" "''Orders under $100''" ?env "[]" ?stats]
  have 1: "fst (queryAgent (answering (Responded ?down)) ?env ''Orders under $100'' [])
     = Inl (Error (''API error: '' @ dec (res_status ?down)))"
    using a by (simp add: answering_def ok_def)
  have 2: "fst (getStats (answering (Responded ?missing)) ?stats [])
     = Inl (Error (''API error: '' @ dec (res_status ?missing)))"
    using b by (simp add: answering_def ok_def)
  have 3: "fst (queryAgent (answering (Responded ?fine)) ?env ''Orders under $100'' [])
     = Inr unavailable_envelope"
    using c by (simp add: answering_def ok_def parsing_as_def unavailable_envelope_def)
  have 4: "fst (getStats (answering (Responded ?fine)) ?stats []) = Inr model_stats"
    using c by (simp add: answering_def ok_def parsing_as_def res_json_def)
  from 1 2 3 4 show ?thesis by (simp add: dec.simps digit_char_def)
qed

text \<open>
  C8. For a successful envelope, the table of the chat message that carries it and the
  cards of the results panel (on its Results tab) list the orders in ascending order of
  \<open>order_id\<close>, and what either lists is a permutation of the envelope's \<open>orders\<close>,
  whatever order the envelope has them in.
\<close>

theorem orders_shown_ascending_permutation:
  assumes "success env" and "result msg = Some env"
  shows "sorted (map order_id (table_orders (Message msg))) \<and>
         mset (table_orders (Message msg)) = mset (orders env) \<and>
         sorted (map order_id
           (map card_order (panel_cards (ResultsPanel toString numberToString Table_tab (Some env))))) \<and>
         mset (map card_order (panel_cards (ResultsPanel toString numberToString Table_tab (Some env))))
           = mset (orders env)"
proof -
  have t: "table_orders (Message msg) = sorted_orders (orders env)"
  proof (cases "orders env")
    case Nil
    with assms show ?thesis by (simp add: table_orders_def Message_def sorted_orders_def)
  next
    case (Cons a as)
    with assms show ?thesis by (simp add: table_orders_def Message_def)
  qed
  have p: "map card_order (panel_cards (ResultsPanel toString numberToString Table_tab (Some env)))
      = sorted_orders (orders env)"
  proof (cases "orders env")
    case Nil
    with assms show ?thesis by (simp add: panel_cards_def ResultsPanel_def sorted_orders_def)
  next
    case (Cons a as)
    with assms show ?thesis by (simp add: panel_cards_def ResultsPanel_def map_card_order)
  qed
  show ?thesis
    unfolding t p by (simp add: sorted_orders_ascending sorted_orders_mset)
qed

theorem orders_shown_ascending_permutation_witness:
  "map order_id (table_orders (Message
       \<lparr>role = ''assistant'', content = ''Found 2 of 20 orders.'', result = Some matched_envelope\<rparr>))
     = [5, 12] \<and>
   map order_id (map card_order
       (panel_cards (ResultsPanel id exponent_form Table_tab (Some matched_envelope)))) = [5, 12] \<and>
   sorted [5, 12 :: int] \<and> map order_id (orders matched_envelope) = [12, 5]"
proof -
  let ?msg = "\<lparr>role = ''assistant'', content = ''Found 2 of 20 orders.'',
               result = Some matched_envelope\<rparr>"
  have s: "success matched_envelope" and r: "result ?msg = Some matched_envelope"
    by (simp_all add: matched_envelope_def)
  note th = orders_shown_ascending_permutation [OF s r, of id exponent_form]
  have a: "map order_id (table_orders (Message ?msg)) = [5, 12]"
    by (simp add: table_orders_def Message_def matched_envelope_def sorted_orders_def
        order_numbered_def)
  have b: "map order_id (map card_order
       (panel_cards (ResultsPanel id exponent_form Table_tab (Some matched_envelope)))) = [5, 12]"
    by (simp add: panel_cards_def ResultsPanel_def matched_envelope_def sorted_orders_def
        order_numbered_def order_card_def)
  from th a b show ?thesis by (simp add: matched_envelope_def order_numbered_def)
qed

text \<open>
  C2, as the code has it. For every string \<open>query\<close>, \<^verbatim>\<open>queryAgent\<close> sends exactly one
  request: a POST to \<^verbatim>\<open>/api/query\<close> (the base \<^verbatim>\<open>/api\<close> followed by
  \<^verbatim>\<open>/query\<close>) with the header Content-Type: application/json and, as its body, the JSON
  text of the object whose one property \<^verbatim>\<open>query\<close> is the string. When the response is
  ok, what it returns is the body parsed as JSON: the value itself when the body parses.
\<close>

theorem queryAgent_posts_to_api_query:
  "snd (queryAgent net parse query sent) =
     sent @ [\<lparr>req_url = ''/api/query'', req_method = ''POST'',
              req_headers = [(''Content-Type'', ''application/json'')],
              req_body = Some (JSON_stringify_query query)\<rparr>] \<and>
   (\<forall>res. net \<lparr>req_url = ''/api/query'', req_method = ''POST'',
              req_headers = [(''Content-Type'', ''application/json'')],
              req_body = Some (JSON_stringify_query query)\<rparr> = Responded res \<and> ok res \<longrightarrow>
      fst (queryAgent net parse query sent) = res_json parse res \<and>
      (\<forall>env. parse (res_body res) = Inr env \<longrightarrow> fst (queryAgent net parse query sent) = Inr env))"
  by (simp add: queryAgent_sent queryAgent_outcome query_request_def API_BASE_def res_json_def)

theorem queryAgent_posts_to_api_query_witness:
  \<open>queryAgent (answering (Responded \<lparr>res_status = 200, res_body = ''{}''\<rparr>))
      (parsing_as (Inr matched_envelope)) ''Orders under $100'' []
    = (Inr matched_envelope,
       [\<lparr>req_url = ''/api/query'', req_method = ''POST'',
         req_headers = [(''Content-Type'', ''application/json'')],
         req_body = Some ''{"query":"Orders under $100"}''\<rparr>])\<close>
proof -
  note th = queryAgent_posts_to_api_query
    [of "answering (Responded \<lparr>res_status = 200, res_body = ''{}''\<rparr>)"
        "parsing_as (Inr matched_envelope)" "''Orders under $100''" "[]"]
  have q: "JSON_stringify_query ''Orders under $100'' =
      [CHR ''{'', CHR 0x22] @ ''query'' @ [CHR 0x22, CHR '':'', CHR 0x22] @
      ''Orders under $100'' @ [CHR 0x22, CHR ''}'']"
    by (simp add: JSON_stringify_query_def JSON_quote_def quote_char_def)
  from th show ?thesis
    by (simp add: prod_eq_iff q answering_def ok_def parsing_as_def res_json_def)
qed

text \<open>
  The request does not go to the path \<^verbatim>\<open>/query\<close>: the one request of a call has the
  URL \<^verbatim>\<open>/api/query\<close>.
\<close>

theorem query_path_counterexample:
  "map req_url (snd (queryAgent (answering (Rejected ''Failed to fetch''))
      (parsing_as (Inr matched_envelope)) ''Orders under $100'' [])) = [''/api/query''] \<and>
   map req_url (snd (queryAgent (answering (Rejected ''Failed to fetch''))
      (parsing_as (Inr matched_envelope)) ''Orders under $100'' [])) \<noteq> [''/query'']"
  by (simp add: queryAgent_def fetch_def answering_def query_request_def API_BASE_def)


text \<open>
  C7, as the code has it. \<^verbatim>\<open>getStats\<close> sends exactly one request, a GET to
  \<^verbatim>\<open>/api/stats\<close>, and returns the diagnostics object of an ok response; the panel
  then shows it. What the panel shows depends on the five fields \<open>accuracy\<close>,
  \<open>training_samples\<close>, \<open>test_samples\<close>, \<open>state_reorder_rates\<close> and
  \<open>feature_importance\<close> and on nothing else in the object; the three numbers are shown as
  they are, and the entries of either mapping are shown in descending order of their
  values, none added and none dropped.
\<close>

theorem getStats_and_panel_fields:
  "snd (getStats net parse sent) =
     sent @ [\<lparr>req_url = ''/api/stats'', req_method = ''GET'', req_headers = [], req_body = None\<rparr>] \<and>
   (\<forall>res d. net \<lparr>req_url = ''/api/stats'', req_method = ''GET'', req_headers = [],
                  req_body = None\<rparr> = Responded res \<and> ok res \<and> parse (res_body res) = Inr d \<longrightarrow>
      fst (getStats net parse sent) = Inr d \<and>
      StatsPanel (fst (stats_panel_mount net parse sent)) = Diagnostics (stats_body d)) \<and>
   stats_body s = stats_body (stats.truncate s) \<and>
   accuracy_shown (stats_body s) = accuracy s \<and>
   training_shown (stats_body s) = training_samples s \<and>
   test_shown (stats_body s) = test_samples s \<and>
   map_option (map (\<lambda>r. (row_state r, row_rate r))) (state_rows (stats_body s))
     = map_option entries_descending (state_reorder_rates s) \<and>
   feature_rows (stats_body s) = entries_descending (feature_importance s) \<and>
   sorted_wrt (\<lambda>a b. snd a \<ge> snd b) (entries_descending obj) \<and>
   mset (entries_descending obj) = mset obj"
proof -
  have a: "snd (getStats net parse sent) =
     sent @ [\<lparr>req_url = ''/api/stats'', req_method = ''GET'', req_headers = [], req_body = None\<rparr>]"
    by (simp add: getStats_sent stats_request_def API_BASE_def)
  have b: "\<And>res d. net \<lparr>req_url = ''/api/stats'', req_method = ''GET'', req_headers = [],
                  req_body = None\<rparr> = Responded res \<and> ok res \<and> parse (res_body res) = Inr d \<Longrightarrow>
      fst (getStats net parse sent) = Inr d \<and>
      StatsPanel (fst (stats_panel_mount net parse sent)) = Diagnostics (stats_body d)"
  proof -
    fix res d
    assume h: "net \<lparr>req_url = ''/api/stats'', req_method = ''GET'', req_headers = [],
                  req_body = None\<rparr> = Responded res \<and> ok res \<and> parse (res_body res) = Inr d"
    then have g: "fst (getStats net parse sent) = Inr d"
      by (simp add: getStats_outcome stats_request_def API_BASE_def res_json_def)
    then have "fst (stats_panel_mount net parse sent)
        = stats_panel_initial\<lparr>panel_stats := Some d, panel_loading := False\<rparr>"
      by (cases "getStats net parse sent") (simp add: stats_panel_mount_def)
    then have "StatsPanel (fst (stats_panel_mount net parse sent)) = Diagnostics (stats_body d)"
      by (simp add: StatsPanel_def stats_panel_initial_def)
    with g show "fst (getStats net parse sent) = Inr d \<and>
      StatsPanel (fst (stats_panel_mount net parse sent)) = Diagnostics (stats_body d)" by simp
  qed
  have c: "accuracy_shown (stats_body s) = accuracy s \<and>
   training_shown (stats_body s) = training_samples s \<and>
   test_shown (stats_body s) = test_samples s \<and>
   feature_rows (stats_body s) = entries_descending (feature_importance s)"
    by (simp add: stats_body_def)
  from a b c show ?thesis
    using stats_body_truncate [of s] state_rows_entries [of s]
      entries_descending_sorted [of obj] entries_descending_mset [of obj]
    by blast
qed

theorem getStats_and_panel_fields_witness:
  "StatsPanel (fst (stats_panel_mount
       (answering (Responded \<lparr>res_status = 200, res_body = ''{}''\<rparr>))
       (parsing_as (Inr model_stats)) []))
     = Diagnostics
         \<lparr>accuracy_shown = 872 / 10, training_shown = 4000, test_shown = 1000,
          state_rows = Some
            [\<lparr>row_state = ''OH'', row_rate = 64, row_color = ''bg-success''\<rparr>,
             \<lparr>row_state = ''TX'', row_rate = 58, row_color = ''bg-accent''\<rparr>,
             \<lparr>row_state = ''NY'', row_rate = 41, row_color = ''bg-warning''\<rparr>],
          feature_rows = [(''has_electronics'', 61 / 2), (''num_items'', 12)]\<rparr>"
proof -
  note th = getStats_and_panel_fields
    [of "answering (Responded \<lparr>res_status = 200, res_body = ''{}''\<rparr>)"
        "parsing_as (Inr model_stats)" "[]" model_stats "[]"]
  have "StatsPanel (fst (stats_panel_mount
       (answering (Responded \<lparr>res_status = 200, res_body = ''{}''\<rparr>))
       (parsing_as (Inr model_stats)) [])) = Diagnostics (stats_body model_stats)"
    using th by (simp add: answering_def ok_def parsing_as_def)
  then show ?thesis
    by (simp add: stats_body_def model_stats_def entries_descending_def Object_entries_def
        stateBarColor_def)
qed

text \<open>
  The request does not go to the path \<^verbatim>\<open>/stats\<close>: the one request of a call has the
  URL \<^verbatim>\<open>/api/stats\<close>.
\<close>

theorem stats_path_counterexample:
  "map req_url (snd (getStats (answering (Rejected ''Failed to fetch''))
      (parsing_as (Inr model_stats)) [])) = [''/api/stats''] \<and>
   map req_url (snd (getStats (answering (Rejected ''Failed to fetch''))
      (parsing_as (Inr model_stats)) [])) \<noteq> [''/stats'']"
  by (simp add: getStats_def fetch_def answering_def stats_request_def API_BASE_def)

text \<open>
  C9. The submitted query is the argument of \<^verbatim>\<open>handleSubmit\<close> or, when there is none,
  the text of the input box with its ends trimmed. If that is the empty string, or a request
  is in flight (\<open>isLoading\<close>), \<^verbatim>\<open>handleSubmit\<close> changes nothing: no request goes
  out, and the messages, the input text and \<open>isLoading\<close> are what they were. For the
  calls the component makes (no argument, or one of its suggestions) this is the case
  whenever the text submitted trims to the empty string or a request is in flight.
\<close>

theorem handleSubmit_blocked_changes_nothing:
  "(submitted query (input st) = [] \<or> isLoading st \<longrightarrow>
      handleSubmit net parse toString query st = st \<and>
      requests_sent (handleSubmit net parse toString query st) = requests_sent st \<and>
      messages (handleSubmit net parse toString query st) = messages st \<and>
      input (handleSubmit net parse toString query st) = input st \<and>
      isLoading (handleSubmit net parse toString query st) = isLoading st) \<and>
   ((query = None \<or> query \<in> Some ` set SUGGESTIONS) \<and>
    (trim (submission_text query (input st)) = [] \<or> isLoading st) \<longrightarrow>
      handleSubmit net parse toString query st = st)"
proof -
  have a: "submitted query (input st) = [] \<or> isLoading st \<Longrightarrow>
      handleSubmit net parse toString query st = st"
    by (rule handleSubmit_blocked)
  have b: "handleSubmit net parse toString query st = st"
    if q: "query = None \<or> query \<in> Some ` set SUGGESTIONS"
      and g: "trim (submission_text query (input st)) = [] \<or> isLoading st"
  proof (cases "isLoading st")
    case True
    then show ?thesis by (simp add: handleSubmit_blocked)
  next
    case False
    with g have t: "trim (submission_text query (input st)) = []" by simp
    from q show ?thesis
    proof
      assume "query = None"
      with t show ?thesis by (simp add: handleSubmit_blocked submitted_def submission_text_def)
    next
      assume "query \<in> Some ` set SUGGESTIONS"
      then obtain s where "s \<in> set SUGGESTIONS" and "query = Some s" by auto
      with t suggestion_submitted [of s] show ?thesis by (simp add: submission_text_def)
    qed
  qed
  from a b show ?thesis by simp
qed

theorem handleSubmit_blocked_changes_nothing_witness:
  "trim (input (idle_state\<lparr>input := [CHR 0x20, CHR 0x09, CHR 0x0A]\<rparr>)) = [] \<and>
   handleSubmit (answering (Responded \<lparr>res_status = 200, res_body = ''{}''\<rparr>))
       (parsing_as (Inr matched_envelope)) id None
       (idle_state\<lparr>input := [CHR 0x20, CHR 0x09, CHR 0x0A]\<rparr>)
     = idle_state\<lparr>input := [CHR 0x20, CHR 0x09, CHR 0x0A]\<rparr> \<and>
   handleSubmit (answering (Responded \<lparr>res_status = 200, res_body = ''{}''\<rparr>))
       (parsing_as (Inr matched_envelope)) id (Some ''Orders under $100'')
       (idle_state\<lparr>isLoading := True\<rparr>)
     = idle_state\<lparr>isLoading := True\<rparr>"
proof -
  let ?net = "answering (Responded \<lparr>res_status = 200, res_body = ''{}''\<rparr>)"
  let ?blank = "idle_state\<lparr>input := [CHR 0x20, CHR 0x09, CHR 0x0A]\<rparr>"
  let ?busy = "idle_state\<lparr>isLoading := True\<rparr>"
  have t: "trim (input ?blank) = []"
    by (simp add: trim_def is_space_def)
  then have a: "submitted None (input ?blank) = [] \<or> isLoading ?blank"
    by (simp add: submitted_def)
  have b: "(Some ''Orders under $100'' = None
        \<or> Some ''Orders under $100'' \<in> Some ` set SUGGESTIONS) \<and>
      (trim (submission_text (Some ''Orders under $100'') (input ?busy)) = [] \<or> isLoading ?busy)"
    by (simp add: SUGGESTIONS_def)
  from t a b
    handleSubmit_blocked_changes_nothing [of None ?blank ?net "parsing_as (Inr matched_envelope)" id]
    handleSubmit_blocked_changes_nothing
      [of "Some ''Orders under $100''" ?busy ?net "parsing_as (Inr matched_envelope)" id]
  show ?thesis by simp
qed

text \<open>
  C10. A submission that passes the guard appends exactly two messages, the user's and then
  one of the assistant. It sets \<open>isLoading\<close> before the request goes out, and the part
  that runs once \<^verbatim>\<open>queryAgent\<close> has settled leaves \<open>isLoading\<close> false on whatever
  state it runs, whether the request resolved or rejected; so \<open>isLoading\<close> is false at
  the end. When the request rejects, the assistant's message is \<^verbatim>\<open>Error: \<close>, the
  message thrown and \<^verbatim>\<open>. Make sure the backend is running (python main.py).\<close>, and
  \<^verbatim>\<open>onResult\<close> is not called.
\<close>

theorem handleSubmit_two_messages_loading_reset:
  assumes "submitted query (input st) \<noteq> []" and "\<not> isLoading st"
  shows "(\<exists>a. messages (handleSubmit net parse toString query st) =
            messages st @ [\<lparr>role = ''user'', content = submitted query (input st), result = None\<rparr>, a]
          \<and> role a = ''assistant'') \<and>
         isLoading (handleSubmit net parse toString query st) = False \<and>
         (\<forall>err. fst (queryAgent net parse (submitted query (input st)) (requests_sent st)) = Inl err
            \<longrightarrow>
            messages (handleSubmit net parse toString query st) =
              messages st @
                [\<lparr>role = ''user'', content = submitted query (input st), result = None\<rparr>,
                 \<lparr>role = ''assistant'',
                   content = ''Error: '' @ message err @
                     ''. Make sure the backend is running (python main.py).'',
                   result = None\<rparr>] \<and>
            onResult_calls (handleSubmit net parse toString query st) = onResult_calls st \<and>
            latestResult (handleSubmit net parse toString query st) = latestResult st) \<and>
         handleSubmit net parse toString query st =
           submit_settle toString
             (fst (queryAgent net parse (submitted query (input st)) (requests_sent st)))
             ((submit_start (submitted query (input st)) st)
                \<lparr>requests_sent :=
                   snd (queryAgent net parse (submitted query (input st)) (requests_sent st))\<rparr>) \<and>
         isLoading (submit_start (submitted query (input st)) st) = True \<and>
         isLoading ((submit_start (submitted query (input st)) st)
                \<lparr>requests_sent :=
                   snd (queryAgent net parse (submitted query (input st)) (requests_sent st))\<rparr>)
           = True \<and>
         (\<forall>outcome st'. isLoading (submit_settle toString outcome st') = False) \<and>
         (\<forall>err st'. onResult_calls (submit_settle toString (Inl err) st') = onResult_calls st')"
proof -
  have old: "(\<exists>a. messages (handleSubmit net parse toString query st) =
            messages st @ [\<lparr>role = ''user'', content = submitted query (input st), result = None\<rparr>, a]
          \<and> role a = ''assistant'') \<and>
         isLoading (handleSubmit net parse toString query st) = False \<and>
         (\<forall>err. fst (queryAgent net parse (submitted query (input st)) (requests_sent st)) = Inl err
            \<longrightarrow>
            messages (handleSubmit net parse toString query st) =
              messages st @
                [\<lparr>role = ''user'', content = submitted query (input st), result = None\<rparr>,
                 \<lparr>role = ''assistant'',
                   content = ''Error: '' @ message err @
                     ''. Make sure the backend is running (python main.py).'',
                   result = None\<rparr>] \<and>
            onResult_calls (handleSubmit net parse toString query st) = onResult_calls st \<and>
            latestResult (handleSubmit net parse toString query st) = latestResult st)"
  proof (cases "fst (queryAgent net parse (submitted query (input st)) (requests_sent st))")
    case (Inl err)
    from handleSubmit_rejected [OF assms Inl, of toString] Inl show ?thesis by simp
  next
    case (Inr env)
    from handleSubmit_resolved [OF assms Inr, of toString] Inr show ?thesis by simp
  qed
  have set: "isLoading (submit_start (submitted query (input st)) st) = True"
    by (simp add: submit_start_def Let_def)
  have flight: "isLoading ((submit_start (submitted query (input st)) st)
                \<lparr>requests_sent :=
                   snd (queryAgent net parse (submitted query (input st)) (requests_sent st))\<rparr>)
           = True"
    by (simp add: submit_start_def Let_def)
  have reset: "\<And>outcome st'. isLoading (submit_settle toString outcome st') = False"
    by (simp add: submit_settle_def Let_def)
  have quiet: "\<And>err st'. onResult_calls (submit_settle toString (Inl err) st') = onResult_calls st'"
    by (simp add: submit_settle_def Let_def)
  from old set flight reset quiet handleSubmit_phases [OF assms, of net parse toString]
  show ?thesis by simp
qed

theorem handleSubmit_two_messages_loading_reset_witness:
  "handleSubmit (answering (Rejected ''Failed to fetch'')) (parsing_as (Inr matched_envelope)) id
       None idle_state
     = idle_state
         \<lparr>messages :=
            [\<lparr>role = ''user'', content = ''Orders under $100'', result = None\<rparr>,
             \<lparr>role = ''assistant'',
               content = ''Error: Failed to fetch. Make sure the backend is running (python main.py).'',
               result = None\<rparr>],
          input := [],
          requests_sent := [query_request ''Orders under $100'']\<rparr> \<and>
   isLoading (submit_start (submitted None (input idle_state)) idle_state) \<and>
   \<not> isLoading (submit_settle id (Inl (TypeError ''Failed to fetch''))
         (idle_state\<lparr>isLoading := True\<rparr>)) \<and>
   \<not> isLoading (submit_settle id (Inr matched_envelope) (idle_state\<lparr>isLoading := True\<rparr>))"
proof -
  let ?net = "answering (Rejected ''Failed to fetch'')"
  let ?parse = "parsing_as (Inr matched_envelope) :: string \<Rightarrow> string + string envelope"
  have q: "submitted None (input idle_state) = ''Orders under $100''"
    by (simp add: submitted_def idle_state_def trim_def is_space_def)
  have a: "submitted None (input idle_state) \<noteq> []" by (simp add: q)
  have b: "\<not> isLoading idle_state" by (simp add: idle_state_def)
  have c: "fst (queryAgent ?net ?parse (submitted None (input idle_state)) (requests_sent idle_state))
      = Inl (TypeError ''Failed to fetch'')"
    by (simp add: queryAgent_outcome answering_def)
  note th = handleSubmit_two_messages_loading_reset [OF a b, of ?net ?parse id]
  note rejected = th [THEN conjunct2, THEN conjunct2, THEN conjunct1, rule_format, OF c]
  note started = th [THEN conjunct2, THEN conjunct2, THEN conjunct2, THEN conjunct2,
      THEN conjunct1]
  note settled = th [THEN conjunct2, THEN conjunct2, THEN conjunct2, THEN conjunct2,
      THEN conjunct2, THEN conjunct2, THEN conjunct1, rule_format]
  have s: "requests_sent (handleSubmit ?net ?parse id None idle_state)
      = [query_request ''Orders under $100'']"
    using handleSubmit_rejected [OF a b c, of id] by (simp add: q) (simp add: idle_state_def)
  have i: "input (handleSubmit ?net ?parse id None idle_state) = []"
    using handleSubmit_rejected [OF a b c, of id] by simp
  have r: "rightTab (handleSubmit ?net ?parse id None idle_state) = ''stats''"
    using handleSubmit_rejected [OF a b c, of id] by (simp add: idle_state_def)
  have m: "messages (handleSubmit ?net ?parse id None idle_state) =
      [\<lparr>role = ''user'', content = ''Orders under $100'', result = None\<rparr>,
       \<lparr>role = ''assistant'',
         content = ''Error: Failed to fetch. Make sure the backend is running (python main.py).'',
         result = None\<rparr>]"
    using rejected by (simp add: q) (simp add: idle_state_def)
  have l: "isLoading (handleSubmit ?net ?parse id None idle_state) = False"
    using th [THEN conjunct2, THEN conjunct1] by simp
  have o: "onResult_calls (handleSubmit ?net ?parse id None idle_state) = []
      \<and> latestResult (handleSubmit ?net ?parse id None idle_state) = None"
    using rejected by (simp add: q) (simp add: idle_state_def)
  have whole: "handleSubmit ?net ?parse id None idle_state
     = idle_state
         \<lparr>messages :=
            [\<lparr>role = ''user'', content = ''Orders under $100'', result = None\<rparr>,
             \<lparr>role = ''assistant'',
               content = ''Error: Failed to fetch. Make sure the backend is running (python main.py).'',
               result = None\<rparr>],
          input := [],
          requests_sent := [query_request ''Orders under $100'']\<rparr>"
    using m l o s i r
    by (cases "handleSubmit ?net ?parse id None idle_state") (simp add: idle_state_def)
  have phases: "isLoading (submit_start (submitted None (input idle_state)) idle_state) \<and>
   \<not> isLoading (submit_settle id (Inl (TypeError ''Failed to fetch''))
         (idle_state\<lparr>isLoading := True\<rparr>)) \<and>
   \<not> isLoading (submit_settle id (Inr matched_envelope) (idle_state\<lparr>isLoading := True\<rparr>))"
    using started settled by simp
  from whole phases show ?thesis by simp
qed

text \<open>
  C5. When the envelope a submission receives has \<open>success\<close> false and carries an error
  string, the message the chat appends for the assistant has exactly the content
  \<^verbatim>\<open>Error: \<close> followed by that string; the results panel, on either tab, is the error
  card with that string and has no order cards (so no predictions); and the chat message
  has no table of orders.
\<close>

theorem failed_envelope_shows_only_its_error:
  assumes "submitted query (input st) \<noteq> []" and "\<not> isLoading st"
    and "fst (queryAgent net parse (submitted query (input st)) (requests_sent st)) = Inr env"
    and "\<not> success env" and "error env = Some e"
  shows "messages (handleSubmit net parse toString query st) =
           messages st @
             [\<lparr>role = ''user'', content = submitted query (input st), result = None\<rparr>,
              \<lparr>role = ''assistant'', content = ''Error: '' @ e, result = Some env\<rparr>] \<and>
         ResultsPanel toString numberToString tab
             (latestResult (handleSubmit net parse toString query st)) = Error_card e \<and>
         panel_cards (ResultsPanel toString numberToString tab
             (latestResult (handleSubmit net parse toString query st))) = [] \<and>
         view_table (Message \<lparr>role = ''assistant'', content = ''Error: '' @ e, result = Some env\<rparr>)
           = None"
proof -
  have s: "summary toString env = ''Error: '' @ e"
    using assms(4,5) by (simp add: summary_failed interpolate_def)
  have p: "ResultsPanel toString numberToString tab (Some env) = Error_card e"
    using assms(4,5) by (simp add: ResultsPanel_failed jsx_child_def)
  have t: "view_table (Message \<lparr>role = ''assistant'', content = ''Error: '' @ e, result = Some env\<rparr>)
      = None"
    using assms(4) by (simp add: Message_def)
  from handleSubmit_resolved [OF assms(1,2,3), of toString] s p t
  show ?thesis by (simp add: panel_cards_def)
qed

theorem failed_envelope_shows_only_its_error_witness:
  "messages (handleSubmit (answering (Responded \<lparr>res_status = 200, res_body = ''{}''\<rparr>))
       (parsing_as (Inr unavailable_envelope)) id (Some ''Orders under $100'') idle_state)
     = [\<lparr>role = ''user'', content = ''Orders under $100'', result = None\<rparr>,
        \<lparr>role = ''assistant'', content = ''Error: SourceUnavailable'',
          result = Some unavailable_envelope\<rparr>] \<and>
   ResultsPanel id exponent_form Table_tab
       (latestResult (handleSubmit (answering (Responded \<lparr>res_status = 200, res_body = ''{}''\<rparr>))
          (parsing_as (Inr unavailable_envelope)) id (Some ''Orders under $100'') idle_state))
     = Error_card ''SourceUnavailable''"
proof -
  let ?net = "answering (Responded \<lparr>res_status = 200, res_body = ''{}''\<rparr>)"
  let ?parse = "parsing_as (Inr unavailable_envelope)"
  let ?q = "Some ''Orders under $100''"
  have q: "submitted ?q (input idle_state) = ''Orders under $100''"
    by (simp add: submitted_def)
  have a: "submitted ?q (input idle_state) \<noteq> []" by (simp add: q)
  have b: "\<not> isLoading idle_state" by (simp add: idle_state_def)
  have c: "fst (queryAgent ?net ?parse (submitted ?q (input idle_state)) (requests_sent idle_state))
      = Inr unavailable_envelope"
    by (simp add: queryAgent_outcome answering_def ok_def res_json_def parsing_as_def)
  have d: "\<not> success unavailable_envelope" and e: "error unavailable_envelope = Some ''SourceUnavailable''"
    by (simp_all add: unavailable_envelope_def)
  from failed_envelope_shows_only_its_error [OF a b c d e, of id exponent_form Table_tab]
  show ?thesis by (simp add: q) (simp add: idle_state_def)
qed


text \<open>
  C6. For a successful envelope the assistant's message is
  \<^verbatim>\<open>Found {total_matched} of {total_parsed} orders.\<close>; when \<open>filters_applied\<close> has
  at least one key it continues with \<^verbatim>\<open> Filters: \<close> and the \<^verbatim>\<open>key=value\<close> pairs
  joined by a comma and a space, and the results panel shows one badge per entry; when it
  has no key (or is absent) the message ends after the sentence and the panel shows no
  filter badges. The summary is the content of the assistant's message of the submission
  that received the envelope.
\<close>

theorem summary_and_filter_badges:
  assumes "success env"
  shows "(\<forall>fs. filters_applied env = Some fs \<and> fs \<noteq> [] \<longrightarrow>
            summary toString env =
              ''Found '' @ dec (total_matched env) @ '' of '' @ dec (total_parsed env) @ '' orders.'' @
              '' Filters: '' @ join '', '' (map (\<lambda>(k, v). k @ ''='' @ toString v) fs) \<and>
            (\<exists>v. ResultsPanel toString numberToString tab (Some env) = Results v \<and>
                 filter_badges v = Some (map (\<lambda>(k, v). k @ '': '' @ toString v) fs) \<and>
                 length (the (filter_badges v)) = length fs)) \<and>
         (filters_applied env = None \<or> filters_applied env = Some [] \<longrightarrow>
            summary toString env =
              ''Found '' @ dec (total_matched env) @ '' of '' @ dec (total_parsed env) @ '' orders.'' \<and>
            (\<exists>v. ResultsPanel toString numberToString tab (Some env) = Results v \<and>
                 filter_badges v = None)) \<and>
         (submitted query (input st) \<noteq> [] \<and> \<not> isLoading st \<and>
          fst (queryAgent net parse (submitted query (input st)) (requests_sent st)) = Inr env \<longrightarrow>
            last (messages (handleSubmit net parse toString query st)) =
              \<lparr>role = ''assistant'', content = summary toString env, result = Some env\<rparr>)"
proof -
  have some: "\<And>fs. filters_applied env = Some fs \<and> fs \<noteq> [] \<Longrightarrow>
            summary toString env =
              ''Found '' @ dec (total_matched env) @ '' of '' @ dec (total_parsed env) @ '' orders.'' @
              '' Filters: '' @ join '', '' (map (\<lambda>(k, v). k @ ''='' @ toString v) fs) \<and>
            (\<exists>v. ResultsPanel toString numberToString tab (Some env) = Results v \<and>
                 filter_badges v = Some (map (\<lambda>(k, v). k @ '': '' @ toString v) fs) \<and>
                 length (the (filter_badges v)) = length fs)"
    using assms
    by (simp add: summary_def ResultsPanel_def or_empty_def Object_keys_def Object_entries_def)
  have none: "filters_applied env = None \<or> filters_applied env = Some [] \<Longrightarrow>
            summary toString env =
              ''Found '' @ dec (total_matched env) @ '' of '' @ dec (total_parsed env) @ '' orders.'' \<and>
            (\<exists>v. ResultsPanel toString numberToString tab (Some env) = Results v \<and>
                 filter_badges v = None)"
    using assms
    by (auto simp add: summary_def ResultsPanel_def or_empty_def Object_keys_def)
  have sent: "submitted query (input st) \<noteq> [] \<and> \<not> isLoading st \<and>
          fst (queryAgent net parse (submitted query (input st)) (requests_sent st)) = Inr env \<Longrightarrow>
            last (messages (handleSubmit net parse toString query st)) =
              \<lparr>role = ''assistant'', content = summary toString env, result = Some env\<rparr>"
    using handleSubmit_resolved [of query st net parse env toString] by simp
  from some none sent show ?thesis by blast
qed

theorem summary_and_filter_badges_witness:
  "summary id matched_envelope = ''Found 2 of 20 orders. Filters: state=OH, min_total=100'' \<and>
   (\<exists>v. ResultsPanel id exponent_form Table_tab (Some matched_envelope) = Results v \<and>
        filter_badges v = Some [''state: OH'', ''min_total: 100'']) \<and>
   summary id (matched_envelope\<lparr>filters_applied := Some []\<rparr>) = ''Found 2 of 20 orders.''"
proof -
  have s: "success matched_envelope" and s': "success (matched_envelope\<lparr>filters_applied := Some []\<rparr>)"
    by (simp_all add: matched_envelope_def)
  have f: "filters_applied matched_envelope = Some [(''state'', ''OH''), (''min_total'', ''100'')]"
    by (simp add: matched_envelope_def)
  have d: "dec (total_matched matched_envelope) = ''2''" "dec (total_parsed matched_envelope) = ''20''"
    by (simp_all add: matched_envelope_def dec.simps digit_char_def)
  note a = summary_and_filter_badges [OF s, of id exponent_form Table_tab None idle_state
      "answering (Rejected [])" "parsing_as (Inl [])"]
  note b = summary_and_filter_badges [OF s', of id exponent_form Table_tab None idle_state
      "answering (Rejected [])" "parsing_as (Inl [])"]
  have 1: "summary id matched_envelope = ''Found 2 of 20 orders. Filters: state=OH, min_total=100''"
    using a f d by simp
  have 2: "\<exists>v. ResultsPanel id exponent_form Table_tab (Some matched_envelope) = Results v \<and>
        filter_badges v = Some [''state: OH'', ''min_total: 100'']"
    using a f by auto
  have 3: "summary id (matched_envelope\<lparr>filters_applied := Some []\<rparr>) = ''Found 2 of 20 orders.''"
    using b d by simp
  from 1 2 3 show ?thesis by simp
qed

text \<open>
  C1. For the envelope of every pipeline run, \<open>total_matched\<close> is at most
  \<open>total_parsed\<close> and \<open>orders\<close> has \<open>total_matched\<close> elements; the badge the
  results panel shows for a successful one reads
  \<^verbatim>\<open>{total_matched} of {total_parsed} matched\<close> with these two numbers, so its first
  number is never the larger.
\<close>

theorem pipeline_counts_and_badge:
  "(let env = run_pipeline source split complete_call substantiated interpret satisfies echo scorer query
    in total_matched env \<le> total_parsed env \<and>
       length (orders env) = total_matched env \<and>
       (success env \<longrightarrow>
          (\<exists>v. ResultsPanel toString numberToString tab (Some env) = Results v \<and>
               matched_badge v =
                 dec (total_matched env) @ '' of '' @ dec (total_parsed env) @ '' matched'')))"
  using run_pipeline_counts [of source split complete_call substantiated "interpret"
      satisfies echo scorer query]
  by (simp add: Let_def ResultsPanel_def)

theorem pipeline_counts_and_badge_witness:
  "total_parsed (run_pipeline flaky_source one_group three_parsed not_number_9 state_of_query
       in_state state_echo (score untrained item_count ''unlikely_reorder'') ''orders from Ohio'') = 3 \<and>
   map order_id (orders (run_pipeline flaky_source one_group three_parsed not_number_9 state_of_query
       in_state state_echo (score untrained item_count ''unlikely_reorder'') ''orders from Ohio''))
     = [12, 5] \<and>
   (\<exists>v. ResultsPanel id exponent_form Table_tab
          (Some (run_pipeline flaky_source one_group three_parsed not_number_9 state_of_query
             in_state state_echo (score untrained item_count ''unlikely_reorder'') ''orders from Ohio''))
        = Results v \<and> matched_badge v = ''2 of 3 matched'')"
proof -
  let ?env = "run_pipeline flaky_source one_group three_parsed not_number_9 state_of_query
       in_state state_echo (score untrained item_count ''unlikely_reorder'') ''orders from Ohio''"
  have f: "fetch_batch flaky_source
      = Inr [''Order 12: Ann Lee, Columbus, OH'', ''Order 5: Ann Lee, Columbus, OH'', ''noise'']"
    by (simp add: fetch_batch_def flaky_source_def numeral_3_eq_3)
  have s: "success ?env" and p: "total_parsed ?env = 3"
    and o: "orders ?env = [order_numbered 12, order_numbered 5]"
    by (simp_all add: run_pipeline_def f one_group_def three_parsed_def validate_def
        apply_filters_def not_number_9_def in_state_def state_of_query_def order_numbered_def
        Let_def)
  have d: "dec 2 = ''2''" "dec 3 = ''3''"
    by (simp_all add: dec.simps digit_char_def)
  from pipeline_counts_and_badge [of flaky_source one_group three_parsed not_number_9
      state_of_query in_state state_echo "score untrained item_count ''unlikely_reorder''"
      "''orders from Ohio''" id exponent_form Table_tab]
  have v: "\<exists>v. ResultsPanel id exponent_form Table_tab (Some ?env) = Results v \<and>
        matched_badge v = dec (total_matched ?env) @ '' of '' @ dec (total_parsed ?env) @ '' matched''"
    and l: "length (orders ?env) = total_matched ?env"
    using s by (simp_all add: Let_def)
  have m: "total_matched ?env = 2"
    using l by (simp add: o)
  from v show ?thesis
    unfolding m p o by (simp add: d order_numbered_def)
qed



text \<open>
  C4, as the code has it. Every ReorderPrediction has its \<open>reorder_probability\<close> in
  \<open>[0, 1]\<close> and the \<open>predicted_label\<close> \<^verbatim>\<open>likely_reorder\<close> exactly when the
  probability is at least one half (the other label being a different string). The results
  panel has one card per order; the card has a reorder indicator exactly when
  \<^verbatim>\<open>ml_predictions\<close> has an entry with the order's \<open>order_id\<close>; the entry used is the
  first such entry; the indicator is in the likely-reorder style exactly when the property
  that entry has under the name \<^verbatim>\<open>prediction\<close> is the string \<^verbatim>\<open>likely_reorder\<close>;
  and its text is the double product of the probability and 100 by \<^verbatim>\<open>toFixed(0)\<close> (for
  a product below \<open>10^21\<close> the integer nearest to it, the larger on a tie) followed by
  \<^verbatim>\<open>% reorder\<close>.
\<close>

theorem reorder_indicator_reads_prediction:
  assumes "other \<noteq> ''likely_reorder''"
  shows "0 \<le> reorder_probability (score m features other ord) \<and>
         reorder_probability (score m features other ord) \<le> 1 \<and>
         (predicted_label (score m features other ord) = ''likely_reorder'')
           = (reorder_probability (score m features other ord) \<ge> 1 / 2) \<and>
         (success env \<longrightarrow>
            panel_cards (ResultsPanel toString numberToString Table_tab (Some env))
              = map (order_card numberToString env) (sorted_orders (orders env))) \<and>
         (find_prediction (ml_predictions env) ord = None \<longrightarrow>
            card_indicator (order_card numberToString env ord) = None) \<and>
         (\<forall>pred. find_prediction (ml_predictions env) ord = Some pred \<longrightarrow>
            entry_order_id pred = order_id ord \<and>
            card_indicator (order_card numberToString env ord) =
              Some \<lparr>likely_style = (string_property pred ''prediction'' = Some ''likely_reorder''),
                    indicator_text =
                      toFixed0 numberToString
                        (times_100 (to_double (entry_reorder_probability pred)))
                      @ ''% reorder''\<rparr>) \<and>
         (\<forall>ps pred rest.
            ml_predictions env = Some (ps @ pred # rest) \<and> entry_order_id pred = order_id ord \<and>
            (\<forall>p \<in> set ps. entry_order_id p \<noteq> order_id ord) \<longrightarrow>
            find_prediction (ml_predictions env) ord = Some pred) \<and>
         ((find_prediction (ml_predictions env) ord = None)
            = (\<forall>ps. ml_predictions env = Some ps \<longrightarrow>
                 (\<forall>p \<in> set ps. entry_order_id p \<noteq> order_id ord))) \<and>
         (\<forall>x. 0 \<le> x \<and> x < 10 ^ 21 \<longrightarrow>
            toFixed0 numberToString (Finite x) = dec (nat \<lfloor>x + 1 / 2\<rfloor>))"
proof -
  let ?p = "sigmoid (intercept m + sum_list (map2 (\<lambda>w x. w * x) (weights m) (features ord)))"
  have r: "reorder_probability (score m features other ord) = ?p"
    by (simp add: score_def Let_def)
  have l: "predicted_label (score m features other ord)
      = (if ?p \<ge> 1 / 2 then ''likely_reorder'' else other)"
    by (simp add: score_def Let_def)
  have b: "0 \<le> ?p \<and> ?p \<le> 1"
    using sigmoid_bounds [of "intercept m + sum_list (map2 (\<lambda>w x. w * x) (weights m) (features ord))"]
    by simp
  have lab: "(predicted_label (score m features other ord) = ''likely_reorder'')
           = (reorder_probability (score m features other ord) \<ge> 1 / 2)"
    unfolding r l using assms by simp
  have none: "find_prediction (ml_predictions env) ord = None \<Longrightarrow>
            card_indicator (order_card numberToString env ord) = None"
    by (simp add: order_card_def)
  have some: "\<And>pred. find_prediction (ml_predictions env) ord = Some pred \<Longrightarrow>
            card_indicator (order_card numberToString env ord) =
              Some \<lparr>likely_style = (string_property pred ''prediction'' = Some ''likely_reorder''),
                    indicator_text =
                      toFixed0 numberToString
                        (times_100 (to_double (entry_reorder_probability pred)))
                      @ ''% reorder''\<rparr>"
    by (simp add: order_card_def reorder_indicator_def)
  have first: "\<And>ps pred rest.
            ml_predictions env = Some (ps @ pred # rest) \<and> entry_order_id pred = order_id ord \<and>
            (\<forall>p \<in> set ps. entry_order_id p \<noteq> order_id ord) \<Longrightarrow>
            find_prediction (ml_predictions env) ord = Some pred"
    by (simp add: find_prediction_first)
  have nearest: "\<And>x. 0 \<le> x \<and> x < 10 ^ 21 \<Longrightarrow>
            toFixed0 numberToString (Finite x) = dec (nat \<lfloor>x + 1 / 2\<rfloor>)"
    by (simp add: toFixed0_nearest)
  have cards: "success env \<Longrightarrow>
            panel_cards (ResultsPanel toString numberToString Table_tab (Some env))
              = map (order_card numberToString env) (sorted_orders (orders env))"
    by (rule panel_cards_success)
  have ident: "\<And>pred. find_prediction (ml_predictions env) ord = Some pred \<Longrightarrow>
      entry_order_id pred = order_id ord"
    by (rule find_prediction_id)
  have b': "0 \<le> reorder_probability (score m features other ord) \<and>
         reorder_probability (score m features other ord) \<le> 1"
    unfolding r by (rule b)
  note fn = find_prediction_None [of "ml_predictions env" ord]
  show ?thesis
    apply (intro conjI)
            apply (rule b' [THEN conjunct1])
           apply (rule b' [THEN conjunct2])
          apply (rule lab)
         apply (rule impI, erule cards)
        apply (rule impI, erule none)
       apply (intro allI impI conjI)
        apply (erule ident)
       apply (erule some)
      apply (intro allI impI, erule first)
     apply (rule fn)
    apply (intro allI impI, erule nearest)
    done
qed

theorem reorder_indicator_reads_prediction_witness:
  "reorder_probability (score untrained item_count ''unlikely_reorder'' (order_numbered 5)) = 1 / 2 \<and>
   predicted_label (score untrained item_count ''unlikely_reorder'' (order_numbered 5))
     = ''likely_reorder'' \<and>
   map card_indicator (panel_cards (ResultsPanel id exponent_form Table_tab (Some matched_envelope)))
     = [Some \<lparr>likely_style = True, indicator_text = ''90% reorder''\<rparr>,
        Some \<lparr>likely_style = False, indicator_text = ''20% reorder''\<rparr>] \<and>
   map card_indicator (panel_cards (ResultsPanel id exponent_form Table_tab (Some rounding_envelope)))
     = [Some \<lparr>likely_style = True, indicator_text = ''14% reorder''\<rparr>,
        Some \<lparr>likely_style = False, indicator_text = ''2% reorder''\<rparr>]"
proof -
  have o: "''unlikely_reorder'' \<noteq> ''likely_reorder''" by simp
  note a = reorder_indicator_reads_prediction
    [OF o, of untrained item_count "order_numbered 5" matched_envelope id exponent_form]
  note b = reorder_indicator_reads_prediction
    [OF o, of untrained item_count "order_numbered 12" matched_envelope id exponent_form]
  note c = reorder_indicator_reads_prediction
    [OF o, of untrained item_count "order_numbered 1" rounding_envelope id exponent_form]
  note d = reorder_indicator_reads_prediction
    [OF o, of untrained item_count "order_numbered 2" rounding_envelope id exponent_form]
  have p: "reorder_probability (score untrained item_count ''unlikely_reorder'' (order_numbered 5))
      = 1 / 2"
    by (simp add: score_def untrained_def item_count_def sigmoid_def Let_def)
  have l: "predicted_label (score untrained item_count ''unlikely_reorder'' (order_numbered 5))
      = ''likely_reorder''"
    using a p by simp
  have so: "sorted_orders (orders matched_envelope) = [order_numbered 5, order_numbered 12]"
    by (simp add: matched_envelope_def sorted_orders_def order_numbered_def)
  have so': "sorted_orders (orders rounding_envelope) = [order_numbered 1, order_numbered 2]"
    by (simp add: rounding_envelope_def sorted_orders_def order_numbered_def)
  have f5: "find_prediction (ml_predictions matched_envelope) (order_numbered 5)
      = Some \<lparr>entry_order_id = 5, entry_reorder_probability = 9 / 10,
          entry_strings = [(''prediction'', ''likely_reorder'')]\<rparr>"
    by (simp add: matched_envelope_def find_prediction_def order_numbered_def)
  have f12: "find_prediction (ml_predictions matched_envelope) (order_numbered 12)
      = Some \<lparr>entry_order_id = 12, entry_reorder_probability = 1 / 5,
          entry_strings = [(''prediction'', ''unlikely_reorder'')]\<rparr>"
    by (simp add: matched_envelope_def find_prediction_def order_numbered_def)
  have f1: "find_prediction (ml_predictions rounding_envelope) (order_numbered 1)
      = Some \<lparr>entry_order_id = 1, entry_reorder_probability = 145 / 1000,
          entry_strings = [(''prediction'', ''likely_reorder'')]\<rparr>"
    using c [THEN conjunct2, THEN conjunct2, THEN conjunct2, THEN conjunct2, THEN conjunct2,
        THEN conjunct2, THEN conjunct1, rule_format, of "[]"]
    by (simp add: rounding_envelope_def order_numbered_def)
  have f2: "find_prediction (ml_predictions rounding_envelope) (order_numbered 2)
      = Some \<lparr>entry_order_id = 2, entry_reorder_probability = 15 / 1000,
          entry_strings = [(''prediction'', ''unlikely_reorder'')]\<rparr>"
    by (simp add: rounding_envelope_def find_prediction_def order_numbered_def)
  have n145: "toFixed0 exponent_form (times_100 (to_double (29 / 200))) = ''14''"
    using percent_0_145 [of exponent_form] by simp
  have n015: "toFixed0 exponent_form (times_100 (to_double (3 / 200))) = ''2''"
    using percent_0_015 [of exponent_form] by simp
  have c5: "card_indicator (order_card exponent_form matched_envelope (order_numbered 5))
      = Some \<lparr>likely_style = True, indicator_text = ''90% reorder''\<rparr>"
    using a f5 by (simp add: string_property_def percent_0_9)
  have c12: "card_indicator (order_card exponent_form matched_envelope (order_numbered 12))
      = Some \<lparr>likely_style = False, indicator_text = ''20% reorder''\<rparr>"
    using b f12 by (simp add: string_property_def percent_0_2)
  have c1: "card_indicator (order_card exponent_form rounding_envelope (order_numbered 1))
      = Some \<lparr>likely_style = True, indicator_text = ''14% reorder''\<rparr>"
    using c f1 n145 by (simp add: string_property_def)
  have c2: "card_indicator (order_card exponent_form rounding_envelope (order_numbered 2))
      = Some \<lparr>likely_style = False, indicator_text = ''2% reorder''\<rparr>"
    using d f2 n015 by (simp add: string_property_def)
  have s: "success matched_envelope" by (simp add: matched_envelope_def)
  have s': "success rounding_envelope" by (simp add: rounding_envelope_def)
  have pc: "panel_cards (ResultsPanel id exponent_form Table_tab (Some matched_envelope))
      = map (order_card exponent_form matched_envelope) (sorted_orders (orders matched_envelope))"
    using a s by simp
  have pc': "panel_cards (ResultsPanel id exponent_form Table_tab (Some rounding_envelope))
      = map (order_card exponent_form rounding_envelope) (sorted_orders (orders rounding_envelope))"
    using c s' by simp
  show ?thesis
    unfolding pc pc' so so' by (simp add: c5 c12 c1 c2 p l)
qed

text \<open>
  The property read is not \<^verbatim>\<open>predicted_label\<close>: an entry with the fields the
  specification gives a ReorderPrediction, the label \<^verbatim>\<open>likely_reorder\<close> under the name
  \<^verbatim>\<open>predicted_label\<close> and the probability 0.9, is the entry found for its order and is
  not drawn in the likely-reorder style.
\<close>

theorem predicted_label_counterexample:
  "string_property
       \<lparr>entry_order_id = 5, entry_reorder_probability = 9 / 10,
        entry_strings = [(''predicted_label'', ''likely_reorder'')]\<rparr> ''predicted_label''
     = Some ''likely_reorder'' \<and>
   prediction_json \<lparr>rp_order_id = 5, reorder_probability = 9 / 10,
                    predicted_label = ''likely_reorder''\<rparr>
     = \<lparr>entry_order_id = 5, entry_reorder_probability = 9 / 10,
        entry_strings = [(''predicted_label'', ''likely_reorder'')]\<rparr> \<and>
   find_prediction
       (Some [\<lparr>entry_order_id = 5, entry_reorder_probability = 9 / 10,
               entry_strings = [(''predicted_label'', ''likely_reorder'')]\<rparr>])
       (order_numbered 5)
     = Some \<lparr>entry_order_id = 5, entry_reorder_probability = 9 / 10,
             entry_strings = [(''predicted_label'', ''likely_reorder'')]\<rparr> \<and>
   card_indicator (order_card exponent_form
       (matched_envelope\<lparr>ml_predictions :=
          Some [\<lparr>entry_order_id = 5, entry_reorder_probability = 9 / 10,
                  entry_strings = [(''predicted_label'', ''likely_reorder'')]\<rparr>]\<rparr>)
       (order_numbered 5))
     = Some \<lparr>likely_style = False, indicator_text = ''90% reorder''\<rparr>"
  by (simp add: order_card_def find_prediction_def prediction_json_def order_numbered_def
      reorder_indicator_def string_property_def percent_0_9)

end
